theory Spec2Isabelle
  imports Complex_Main
begin

section \<open>numpy floating-point values\<close>

text \<open>
  The module computes on numpy \<open>float64\<close> scalars and arrays (the rates come out of
  pandas columns and numpy arrays, so they are \<open>np.float64\<close>, for which a division by
  zero yields an infinity or NaN under a warning instead of raising). A value is a finite
  number, one of the two infinities, or NaN. The arithmetic on the special values is
  that of IEEE 754. Finite values are the reals they denote: rounding and overflow are
  not modelled, and the zero carries no sign (a nonzero value divided by zero takes the
  sign of the numerator, as with \<open>+0.0\<close>).
\<close>

datatype npf = Fin real | PInf | NInf | NaN

instantiation npf :: "{plus, minus, uminus, times, divide}"
begin

fun uminus_npf :: "npf \<Rightarrow> npf" where
  "uminus_npf (Fin a) = Fin (- a)"
| "uminus_npf PInf = NInf"
| "uminus_npf NInf = PInf"
| "uminus_npf NaN = NaN"

fun plus_npf :: "npf \<Rightarrow> npf \<Rightarrow> npf" where
  "plus_npf NaN y = NaN"
| "plus_npf x NaN = NaN"
| "plus_npf (Fin a) (Fin b) = Fin (a + b)"
| "plus_npf (Fin a) PInf = PInf"
| "plus_npf (Fin a) NInf = NInf"
| "plus_npf PInf (Fin b) = PInf"
| "plus_npf NInf (Fin b) = NInf"
| "plus_npf PInf PInf = PInf"
| "plus_npf NInf NInf = NInf"
| "plus_npf PInf NInf = NaN"
| "plus_npf NInf PInf = NaN"

definition minus_npf :: "npf \<Rightarrow> npf \<Rightarrow> npf" where
  "minus_npf x y = x + (- y)"

fun times_npf :: "npf \<Rightarrow> npf \<Rightarrow> npf" where
  "times_npf NaN y = NaN"
| "times_npf x NaN = NaN"
| "times_npf (Fin a) (Fin b) = Fin (a * b)"
| "times_npf (Fin a) PInf = (if a = 0 then NaN else if 0 < a then PInf else NInf)"
| "times_npf (Fin a) NInf = (if a = 0 then NaN else if 0 < a then NInf else PInf)"
| "times_npf PInf (Fin b) = (if b = 0 then NaN else if 0 < b then PInf else NInf)"
| "times_npf NInf (Fin b) = (if b = 0 then NaN else if 0 < b then NInf else PInf)"
| "times_npf PInf PInf = PInf"
| "times_npf NInf NInf = PInf"
| "times_npf PInf NInf = NInf"
| "times_npf NInf PInf = NInf"

fun divide_npf :: "npf \<Rightarrow> npf \<Rightarrow> npf" where
  "divide_npf NaN y = NaN"
| "divide_npf x NaN = NaN"
| "divide_npf (Fin a) (Fin b) =
     (if b \<noteq> 0 then Fin (a / b) else if a = 0 then NaN else if 0 < a then PInf else NInf)"
| "divide_npf (Fin a) PInf = Fin 0"
| "divide_npf (Fin a) NInf = Fin 0"
| "divide_npf PInf (Fin b) = (if 0 \<le> b then PInf else NInf)"
| "divide_npf NInf (Fin b) = (if 0 \<le> b then NInf else PInf)"
| "divide_npf PInf PInf = NaN"
| "divide_npf NInf NInf = NaN"
| "divide_npf PInf NInf = NaN"
| "divide_npf NInf PInf = NaN"

instance ..

end

instantiation npf :: inverse
begin

definition inverse_npf :: "npf \<Rightarrow> npf" where
  "inverse_npf x = divide (Fin 1) x"

instance ..

end

text \<open>Comparisons: every ordered comparison with NaN is false, \<open>!=\<close> with NaN is true.\<close>

fun lt :: "npf \<Rightarrow> npf \<Rightarrow> bool" where
  "lt NaN y = False"
| "lt x NaN = False"
| "lt (Fin a) (Fin b) = (a < b)"
| "lt x PInf = (x \<noteq> PInf)"
| "lt NInf y = (y \<noteq> NInf)"
| "lt x y = False"

definition gt :: "npf \<Rightarrow> npf \<Rightarrow> bool" where
  "gt x y = lt y x"

definition eq :: "npf \<Rightarrow> npf \<Rightarrow> bool" where
  "eq x y = (x \<noteq> NaN \<and> x = y)"

definition ne :: "npf \<Rightarrow> npf \<Rightarrow> bool" where
  "ne x y = (\<not> eq x y)"

definition le :: "npf \<Rightarrow> npf \<Rightarrow> bool" where
  "le x y = (lt x y \<or> eq x y)"

definition ge :: "npf \<Rightarrow> npf \<Rightarrow> bool" where
  "ge x y = le y x"

text \<open>A Python or numpy bool in arithmetic is 1.0 or 0.0.\<close>

definition b2f :: "bool \<Rightarrow> npf" where
  "b2f b = Fin (if b then 1 else 0)"

fun is_finite :: "npf \<Rightarrow> bool" where
  "is_finite (Fin a) = True"
| "is_finite x = False"

text \<open>\<open>np.exp\<close>, \<open>np.log\<close>, \<open>np.sqrt\<close>.\<close>

fun exp_np :: "npf \<Rightarrow> npf" where
  "exp_np (Fin a) = Fin (exp a)"
| "exp_np PInf = PInf"
| "exp_np NInf = Fin 0"
| "exp_np NaN = NaN"

fun np_log :: "npf \<Rightarrow> npf" where
  "np_log (Fin a) = (if 0 < a then Fin (ln a) else if a = 0 then NInf else NaN)"
| "np_log PInf = PInf"
| "np_log NInf = NaN"
| "np_log NaN = NaN"

fun np_sqrt :: "npf \<Rightarrow> npf" where
  "np_sqrt (Fin a) = (if 0 \<le> a then Fin (sqrt a) else NaN)"
| "np_sqrt PInf = PInf"
| "np_sqrt NInf = NaN"
| "np_sqrt NaN = NaN"

text \<open>\<open>np.maximum\<close>, \<open>np.minimum\<close> (NaN propagates) and \<open>np.clip\<close>, which is
  \<open>minimum(maximum(x, a_min), a_max)\<close>.\<close>

definition np_maximum :: "npf \<Rightarrow> npf \<Rightarrow> npf" where
  "np_maximum x y = (if x = NaN \<or> y = NaN then NaN else if lt x y then y else x)"

definition np_minimum :: "npf \<Rightarrow> npf \<Rightarrow> npf" where
  "np_minimum x y = (if x = NaN \<or> y = NaN then NaN else if lt y x then y else x)"

definition np_clip :: "npf \<Rightarrow> npf \<Rightarrow> npf \<Rightarrow> npf" where
  "np_clip x lo hi = np_minimum (np_maximum x lo) hi"

section \<open>Errors and arrays\<close>

text \<open>The exceptions the modelled code can raise.\<close>

datatype error = TypeError | ValueError | IndexError | UnboundLocalError

text \<open>
  A one-dimensional float array is a list of values, an array of indices a list of
  naturals, a boolean mask a list of booleans. \<open>np.sort\<close> orders NaN last.
\<close>

fun sort_le :: "npf \<Rightarrow> npf \<Rightarrow> bool" where
  "sort_le x NaN = True"
| "sort_le NaN y = False"
| "sort_le x y = (\<not> lt y x)"

fun np_insort :: "npf \<Rightarrow> npf list \<Rightarrow> npf list" where
  "np_insort x [] = [x]"
| "np_insort x (y # ys) = (if sort_le x y then x # y # ys else y # np_insort x ys)"

definition np_sort :: "npf list \<Rightarrow> npf list" where
  "np_sort xs = foldr np_insort xs []"

text \<open>\<open>np.diff(xs, prepend=p)\<close>: the differences of consecutive entries of \<open>p # xs\<close>.\<close>

fun np_diff :: "npf \<Rightarrow> npf list \<Rightarrow> npf list" where
  "np_diff p [] = []"
| "np_diff p (x # xs) = (x - p) # np_diff x xs"

definition np_sum :: "npf list \<Rightarrow> npf" where
  "np_sum xs = foldl (+) (Fin 0) xs"

definition np_mean :: "npf list \<Rightarrow> npf" where
  "np_mean xs = np_sum xs / Fin (real (length xs))"

text \<open>\<open>np.max\<close> and \<open>np.min\<close> of an array raise ValueError on an empty one.\<close>

definition np_amax :: "npf list \<Rightarrow> error + npf" where
  "np_amax xs = (case xs of [] \<Rightarrow> Inl ValueError | x # r \<Rightarrow> Inr (foldl np_maximum x r))"

definition np_amin :: "npf list \<Rightarrow> error + npf" where
  "np_amin xs = (case xs of [] \<Rightarrow> Inl ValueError | x # r \<Rightarrow> Inr (foldl np_minimum x r))"

text \<open>
  \<open>np.argmin\<close>: the first index of the least entry, where a NaN counts as least (the
  first NaN wins). The candidate \<open>x\<close> replaces the best so far \<open>b\<close> only when it is
  strictly better. On an empty array numpy raises; every caller below passes the two or
  four candidate states, or at least 199 curve points.
\<close>

definition better :: "npf \<Rightarrow> npf \<Rightarrow> bool" where
  "better x b = (b \<noteq> NaN \<and> (x = NaN \<or> lt x b))"

fun argmin_from :: "nat \<Rightarrow> npf \<Rightarrow> nat \<Rightarrow> npf list \<Rightarrow> nat" where
  "argmin_from bi b i [] = bi"
| "argmin_from bi b i (x # xs) =
     (if better x b then argmin_from i x (Suc i) xs else argmin_from bi b (Suc i) xs)"

definition np_argmin :: "npf list \<Rightarrow> nat" where
  "np_argmin xs = (case xs of [] \<Rightarrow> 0 | x # r \<Rightarrow> argmin_from 0 x 1 r)"

text \<open>The first error of a list of results, or all the values.\<close>

fun sequence :: "(error + 'a) list \<Rightarrow> error + 'a list" where
  "sequence [] = Inr []"
| "sequence (Inl e # rs) = Inl e"
| "sequence (Inr x # rs) = (case sequence rs of Inl e \<Rightarrow> Inl e | Inr xs \<Rightarrow> Inr (x # xs))"

section \<open>Helper functions\<close>

text \<open>
  \<^verbatim>\<open>def log(x, eps=1e-6): return np.log(np.clip(x, eps, 1 - eps))\<close>
\<close>

definition eps_default :: npf where
  "eps_default = Fin (1 / 10 ^ 6)"

definition log_np :: "npf \<Rightarrow> npf \<Rightarrow> npf" where
  "log_np x eps = np_log (np_clip x eps (Fin 1 - eps))"

text \<open>
  \<^verbatim>\<open>def inv(x): x_inv = 1 / x * (x != 0); return x_inv\<close>
  (inside a block that silences the warnings of the division).
\<close>

definition inv_np :: "npf \<Rightarrow> npf" where
  "inv_np x = Fin 1 / x * b2f (ne x (Fin 0))"

text \<open>
  \<^verbatim>\<open>def compute_dt(t, clipped=True, axis=0):
    prepend = np.min(t, axis=axis)[None, :]
    dt = np.diff(np.sort(t, axis=axis), prepend=prepend, axis=axis)
    m_dt = np.max([np.mean(dt, axis=axis), np.max(t, axis=axis) / len(t)], axis=axis)
    m_dt = np.clip(m_dt, 0, None)
    if clipped:  # Poisson upper bound
        ub = m_dt + 3 * np.sqrt(m_dt)
        dt = np.clip(dt, 0, ub)
    return dt\<close>
  Every operation runs along axis 0. For a two-dimensional \<open>t\<close> (cells by genes) that
  is within one column: the array is given as the list of its columns, and
  \<open>compute_dt_col\<close> is the computation on the column \<open>t[:, j]\<close>, whose length is
  \<open>len(t)\<close>. For a one-dimensional \<open>t\<close> the minimum along axis 0 is a scalar (or
  ValueError on an empty array), and the index \<open>[None, :]\<close> of a scalar raises
  IndexError.
\<close>

datatype ndarray = Dim1 "npf list" | Dim2 "npf list list"

definition compute_dt_col :: "npf list \<Rightarrow> bool \<Rightarrow> error + npf list" where
  "compute_dt_col t clipped =
     (case np_amin t of Inl e \<Rightarrow> Inl e | Inr prepend \<Rightarrow>
      let dt = np_diff prepend (np_sort t) in
      (case np_amax t of Inl e \<Rightarrow> Inl e | Inr mx \<Rightarrow>
       let m_dt = np_maximum (np_mean dt) (mx / Fin (real (length t)));
           m_dt = np_maximum m_dt (Fin 0)
       in if clipped
          then (let ub = m_dt + Fin 3 * np_sqrt m_dt
                in Inr (map (\<lambda>d. np_clip d (Fin 0) ub) dt))
          else Inr dt))"

fun compute_dt :: "ndarray \<Rightarrow> bool \<Rightarrow> error + npf list list" where
  "compute_dt (Dim1 t) clipped =
     (case np_amin t of Inl e \<Rightarrow> Inl e | Inr prepend \<Rightarrow> Inl IndexError)"
| "compute_dt (Dim2 t) clipped = sequence (map (\<lambda>col. compute_dt_col col clipped) t)"

section \<open>Dynamics delineation\<close>

text \<open>
  \<^verbatim>\<open>def unspliced(tau, u0, alpha, beta):
    expu = exp(-beta * tau)
    return u0 * expu + alpha / beta * (1 - expu)\<close>
\<close>

definition unspliced :: "npf \<Rightarrow> npf \<Rightarrow> npf \<Rightarrow> npf \<Rightarrow> npf" where
  "unspliced tau u0 alpha beta =
     (let expu = exp_np (- beta * tau)
      in u0 * expu + alpha / beta * (Fin 1 - expu))"

text \<open>
  \<^verbatim>\<open>def spliced(tau, s0, u0, alpha, beta, gamma):
    c = (alpha - u0 * beta) * inv(gamma - beta)
    expu, exps = exp(-beta * tau), exp(-gamma * tau)
    return s0 * exps + alpha / gamma * (1 - exps) + c * (exps - expu)\<close>
\<close>

definition spliced :: "npf \<Rightarrow> npf \<Rightarrow> npf \<Rightarrow> npf \<Rightarrow> npf \<Rightarrow> npf \<Rightarrow> npf" where
  "spliced tau s0 u0 alpha beta gamma =
     (let c = (alpha - u0 * beta) * inv_np (gamma - beta);
          expu = exp_np (- beta * tau);
          exps = exp_np (- gamma * tau)
      in s0 * exps + alpha / gamma * (Fin 1 - exps) + c * (exps - expu))"

text \<open>
  \<^verbatim>\<open>def mRNA(tau, u0, s0, alpha, beta, gamma):
    expu, exps = exp(-beta * tau), exp(-gamma * tau)
    u = u0 * expu + alpha / beta * (1 - expu)
    s = s0 * exps + alpha / gamma * (1 - exps)
        + (alpha - u0 * beta) * inv(gamma - beta) * (exps - expu)
    return u, s\<close>
\<close>

definition mRNA :: "npf \<Rightarrow> npf \<Rightarrow> npf \<Rightarrow> npf \<Rightarrow> npf \<Rightarrow> npf \<Rightarrow> npf \<times> npf" where
  "mRNA tau u0 s0 alpha beta gamma =
     (let expu = exp_np (- beta * tau);
          exps = exp_np (- gamma * tau);
          u = u0 * expu + alpha / beta * (Fin 1 - expu);
          s = s0 * exps + alpha / gamma * (Fin 1 - exps)
              + (alpha - u0 * beta) * inv_np (gamma - beta) * (exps - expu)
      in (u, s))"



text \<open>
  \<^verbatim>\<open>def adjust_increments(tau):
    tau_new = tau * 1.
    tau_ord = np.sort(tau_new)
    dtau = np.diff(tau_ord, prepend=0)
    m_dtau = np.max([np.mean(dtau), np.max(tau) / len(tau), 0])
    # Poisson with std = sqrt(mean) -> ~99.9% confidence
    ub = m_dtau + 3 * np.sqrt(m_dtau)
    idx = np.where(dtau > ub)[0]
    for i in idx:
        ti, dti = tau_ord[i], dtau[i]  # - ub
        tau_new[tau >= ti] -= dti
    return tau_new\<close>
\<close>

definition adjust_increments :: "npf list \<Rightarrow> error + npf list" where
  "adjust_increments tau =
     (let tau_new = map (\<lambda>x. x * Fin 1) tau;
          tau_ord = np_sort tau_new;
          dtau = np_diff (Fin 0) tau_ord
      in case np_amax tau of Inl e \<Rightarrow> Inl e | Inr mx \<Rightarrow>
         let m_dtau = np_maximum (np_maximum (np_mean dtau) (mx / Fin (real (length tau)))) (Fin 0);
             ub = m_dtau + Fin 3 * np_sqrt m_dtau;
             idx = filter (\<lambda>i. gt (dtau ! i) ub) [0..<length dtau]
         in Inr (foldl (\<lambda>tau_new i.
                   let ti = tau_ord ! i; dti = dtau ! i
                   in map (\<lambda>j. if ge (tau ! j) ti then tau_new ! j - dti else tau_new ! j)
                        [0..<length tau_new])
                 tau_new idx))"

text \<open>
  \<^verbatim>\<open>def tau_inv(u, s=None, u0=None, s0=None, alpha=None, beta=None, gamma=None):
    inv_u = (gamma >= beta) if gamma is not None else True
    inv_us = np.invert(inv_u)
    any_invu = np.any(inv_u) or s is None
    any_invus = np.any(inv_us) and s is not None
    if any_invus:  # tau_inv(u, s)
        beta_ = beta * inv(gamma - beta)
        xinf = alpha / gamma - beta_ * (alpha / beta)
        tau = - 1 / gamma * log((s - beta_ * u - xinf) / (s0 - beta_ * u0 - xinf))
    if any_invu:  # tau_inv(u)
        uinf = alpha / beta
        tau_u = - 1 / beta * log((u - uinf) / (u0 - uinf))
        tau = tau_u * inv_u + tau * inv_us if any_invus else tau_u
    return tau\<close>
  The function is called with scalars and with arrays, which numpy broadcasts against each
  other. An argument is a list of per-cell values, a scalar being a list of one value:
  \<open>bc_at\<close> reads cell \<open>i\<close> of a broadcast argument and \<open>bc_len\<close> is the length of the
  broadcast of the given lengths (arrays that are not scalars have one common length; numpy
  raises on any other shapes). \<open>u0\<close>, \<open>alpha\<close> and \<open>beta\<close> are always supplied by the
  callers; \<open>s\<close>, \<open>s0\<close> and \<open>gamma\<close> may be None.

  \<open>tau_inv_us\<close> and \<open>tau_inv_u\<close> are one cell of the arrays computed by the blocks
  marked \<open># tau_inv(u, s)\<close> and \<open># tau_inv(u)\<close>.
\<close>

definition bc_at :: "'a list \<Rightarrow> nat \<Rightarrow> 'a" where
  "bc_at xs i = (if length xs = 1 then xs ! 0 else xs ! i)"

definition bc_len :: "nat list \<Rightarrow> nat" where
  "bc_len ls = (case filter (\<lambda>l. l \<noteq> 1) ls of [] \<Rightarrow> 1 | l # r \<Rightarrow> l)"

definition tau_inv_us :: "npf \<Rightarrow> npf \<Rightarrow> npf \<Rightarrow> npf \<Rightarrow> npf \<Rightarrow> npf \<Rightarrow> npf \<Rightarrow> npf" where
  "tau_inv_us u s u0 s0 alpha beta gamma =
     (let beta' = beta * inv_np (gamma - beta);
          xinf = alpha / gamma - beta' * (alpha / beta)
      in - Fin 1 / gamma * log_np ((s - beta' * u - xinf) / (s0 - beta' * u0 - xinf)) eps_default)"

definition tau_inv_u :: "npf \<Rightarrow> npf \<Rightarrow> npf \<Rightarrow> npf \<Rightarrow> npf" where
  "tau_inv_u u u0 alpha beta =
     (let uinf = alpha / beta
      in - Fin 1 / beta * log_np ((u - uinf) / (u0 - uinf)) eps_default)"

definition tau_inv ::
  "npf list \<Rightarrow> npf list option \<Rightarrow> npf list \<Rightarrow> npf list option \<Rightarrow> npf list \<Rightarrow> npf list \<Rightarrow>
   npf list option \<Rightarrow> error + npf list" where
  "tau_inv u s u0 s0 alpha beta gamma =
     (let inv_u = (case gamma of None \<Rightarrow> [True]
                   | Some g \<Rightarrow> map (\<lambda>i. ge (bc_at g i) (bc_at beta i))
                                [0..<bc_len [length g, length beta]]);
          inv_us = map Not inv_u;
          any_invu = (True \<in> set inv_u \<or> s = None);
          any_invus = (True \<in> set inv_us \<and> s \<noteq> None)
      in if any_invus then
           (case (s, s0, gamma) of
              (Some sv, Some s0v, Some g) \<Rightarrow>
                (let n = bc_len [length u, length sv, length u0, length s0v, length alpha,
                                 length beta, length g];
                     tau = (\<lambda>i. tau_inv_us (bc_at u i) (bc_at sv i) (bc_at u0 i) (bc_at s0v i)
                                   (bc_at alpha i) (bc_at beta i) (bc_at g i))
                 in if any_invu then
                      Inr (map (\<lambda>i. let tau_u = tau_inv_u (bc_at u i) (bc_at u0 i) (bc_at alpha i)
                                                  (bc_at beta i)
                                     in tau_u * b2f (bc_at inv_u i) + tau i * b2f (bc_at inv_us i))
                             [0..<n])
                    else Inr (map tau [0..<n]))
            | _ \<Rightarrow> Inl TypeError)
         else if any_invu then
           Inr (map (\<lambda>i. tau_inv_u (bc_at u i) (bc_at u0 i) (bc_at alpha i) (bc_at beta i))
                  [0..<bc_len [length u, length u0, length alpha, length beta]])
         else Inl UnboundLocalError)"

text \<open>\<open>np.linspace(start, stop, num)\<close> for \<open>num \<ge> 2\<close>: \<open>num\<close> points, the last one
  \<open>stop\<close> itself.\<close>

definition linspace :: "npf \<Rightarrow> npf \<Rightarrow> nat \<Rightarrow> npf list" where
  "linspace start stop num =
     (let step = (stop - start) / Fin (real (num - 1))
      in map (\<lambda>i. Fin (real i) * step + start) [0..<num - 1] @ [stop])"

text \<open>The entries of \<open>xs\<close> under a boolean mask, \<open>xs[mask]\<close>.\<close>

definition mask_select :: "bool list \<Rightarrow> 'a list \<Rightarrow> 'a list" where
  "mask_select m xs = map snd (filter fst (zip m xs))"

text \<open>
  \<^verbatim>\<open>def assign_tau(u, s, alpha, beta, gamma, t_=None, u0_=None, s0_=None,
               assignment_mode=None):
    if assignment_mode is 'projection' and beta < gamma:
        x_obs = np.vstack([u, s]).T
        t0 = tau_inv(np.min(u[s > 0]), u0=u0_, alpha=0, beta=beta)
        num = np.clip(int(len(u) / 5), 200, 500)
        tpoints = np.linspace(0, t_, num=num)
        tpoints_ = np.linspace(0, t0, num=num)[1:]
        xt = np.vstack(mRNA(tpoints, 0, 0, alpha, beta, gamma)).T
        xt_ = np.vstack(mRNA(tpoints_, u0_, s0_, 0, beta, gamma)).T
        # assign time points (oth. projection onto 'on' and 'off' curve)
        tau, tau_ = np.zeros(len(u)), np.zeros(len(u))
        for i, xi in enumerate(x_obs):
            diffx, diffx_ = ((xt - xi)**2).sum(1), ((xt_ - xi)**2).sum(1)
            tau[i] = tpoints[np.argmin(diffx)]
            tau_[i] = tpoints_[np.argmin(diffx_)]
    else:
        tau = tau_inv(u, s, 0, 0, alpha, beta, gamma)
        tau = np.clip(tau, 0, t_)
        tau_ = tau_inv(u, s, u0_, s0_, 0, beta, gamma)
        tau_ = np.clip(tau_, 0, np.max(tau_[s > 0]))
    return tau, tau_, t_\<close>
  \<open>u\<close> and \<open>s\<close> are the per-cell arrays, of one length; the rates, \<open>u0_\<close> and
  \<open>s0_\<close> are scalars (the one caller has set \<open>u0_\<close> and \<open>s0_\<close>), \<open>t_\<close> may be None.
  The test \<open>is 'projection'\<close> compares string identities, which for an interned
  literal is the equality of the strings.
\<close>

definition sqdist :: "npf \<times> npf \<Rightarrow> npf \<times> npf \<Rightarrow> npf" where
  "sqdist xt xi = (fst xt - fst xi) * (fst xt - fst xi) + (snd xt - snd xi) * (snd xt - snd xi)"

definition assign_tau ::
  "npf list \<Rightarrow> npf list \<Rightarrow> npf \<Rightarrow> npf \<Rightarrow> npf \<Rightarrow> npf option \<Rightarrow> npf \<Rightarrow> npf \<Rightarrow> string option \<Rightarrow>
   error + npf list \<times> npf list \<times> npf option" where
  "assign_tau u s alpha beta gamma t' u0' s0' assignment_mode =
     (if assignment_mode = Some ''projection'' \<and> lt beta gamma then
        (let x_obs = zip u s in
         (case np_amin (mask_select (map (\<lambda>x. gt x (Fin 0)) s) u) of
            Inl e \<Rightarrow> Inl e
          | Inr umin \<Rightarrow>
            (case tau_inv [umin] None [u0'] None [Fin 0] [beta] None of
               Inl e \<Rightarrow> Inl e
             | Inr t0 \<Rightarrow>
               (case t' of
                  None \<Rightarrow> Inl TypeError
                | Some t_sw \<Rightarrow>
                  (let num = min (max (length u div 5) 200) 500;
                       tpoints = linspace (Fin 0) t_sw num;
                       tpoints' = tl (linspace (Fin 0) (bc_at t0 0) num);
                       xt = map (\<lambda>t. mRNA t (Fin 0) (Fin 0) alpha beta gamma) tpoints;
                       xt' = map (\<lambda>t. mRNA t u0' s0' (Fin 0) beta gamma) tpoints';
                       tau = map (\<lambda>xi. tpoints ! np_argmin (map (\<lambda>x. sqdist x xi) xt)) x_obs;
                       tau' = map (\<lambda>xi. tpoints' ! np_argmin (map (\<lambda>x. sqdist x xi) xt')) x_obs
                   in Inr (tau, tau', t'))))))
      else
        (case tau_inv u (Some s) [Fin 0] (Some [Fin 0]) [alpha] [beta] (Some [gamma]) of
           Inl e \<Rightarrow> Inl e
         | Inr tau \<Rightarrow>
           (let tau = (case t' of None \<Rightarrow> map (\<lambda>x. np_maximum x (Fin 0)) tau
                       | Some t_sw \<Rightarrow> map (\<lambda>x. np_clip x (Fin 0) t_sw) tau)
            in case tau_inv u (Some s) [u0'] (Some [s0']) [Fin 0] [beta] (Some [gamma]) of
                 Inl e \<Rightarrow> Inl e
               | Inr tau' \<Rightarrow>
                 (case np_amax (mask_select (map (\<lambda>x. gt x (Fin 0)) s) tau') of
                    Inl e \<Rightarrow> Inl e
                  | Inr mx \<Rightarrow> Inr (tau, map (\<lambda>x. np_clip x (Fin 0) mx) tau', t')))))"


section \<open>The divergence of the model from the observations\<close>

text \<open>
  \<open>np.argmin(rows, axis=0)\<close> of a two-dimensional array given by its rows: for each
  column the index of the row with the least entry. Arrays of one length are combined
  entry by entry (\<open>map2\<close>); numpy raises on arrays of different lengths, which the callers
  of this module do not pass.
\<close>

definition argmin_axis0 :: "npf list list \<Rightarrow> nat list" where
  "argmin_axis0 rows = map (\<lambda>i. np_argmin (map (\<lambda>r. r ! i) rows)) [0..<length (hd rows)]"

definition sq :: "npf \<Rightarrow> npf" where
  "sq x = x * x"

definition mRNA_arr ::
  "npf list \<Rightarrow> npf \<Rightarrow> npf \<Rightarrow> npf \<Rightarrow> npf \<Rightarrow> npf \<Rightarrow> npf list \<times> npf list" where
  "mRNA_arr tau u0 s0 alpha beta gamma =
     (map (\<lambda>t. fst (mRNA t u0 s0 alpha beta gamma)) tau,
      map (\<lambda>t. snd (mRNA t u0 s0 alpha beta gamma)) tau)"

text \<open>\<open>xs[mask] = vs\<close>: the entries under the mask take the values of \<open>vs\<close> in order.\<close>

fun mask_assign :: "bool list \<Rightarrow> 'a list \<Rightarrow> 'a list \<Rightarrow> 'a list" where
  "mask_assign (True # m) (x # xs) (v # vs) = v # mask_assign m xs vs"
| "mask_assign (False # m) (x # xs) vs = x # mask_assign m xs vs"
| "mask_assign m xs vs = xs"

text \<open>\<open>np.nanvar\<close>: the variance of the entries that are not NaN.\<close>

definition np_nanvar :: "npf list \<Rightarrow> npf" where
  "np_nanvar xs =
     (let ys = filter (\<lambda>x. x \<noteq> NaN) xs;
          cnt = Fin (real (length ys));
          avg = np_sum ys / cnt
      in np_sum (map (\<lambda>x. sq (x - avg)) ys) / cnt)"

text \<open>
  \<^verbatim>\<open>def normalize(X, axis=0):
    X_sum = np.sum(X, axis=axis)
    X_sum += X_sum == 0
    return X / X_sum\<close>
\<close>

definition normalize :: "npf list list \<Rightarrow> npf list list" where
  "normalize X =
     (let X_sum = map (\<lambda>i. np_sum (map (\<lambda>r. r ! i) X)) [0..<length (hd X)];
          X_sum = map (\<lambda>x. x + b2f (eq x (Fin 0))) X_sum
      in map (\<lambda>r. map2 (/) r X_sum) X)"

text \<open>
  The connectivities are None, False (when the caller switched the smoothing off) or a
  scipy sparse matrix, given by its rows, each the list of its stored entries (column,
  weight). Its product with a dense vector sums over the stored entries only.
\<close>

datatype conn = CNone | CFalse | CMatrix "(nat \<times> npf) list list"

definition sp_dot :: "(nat \<times> npf) list list \<Rightarrow> npf list \<Rightarrow> npf list" where
  "sp_dot C x = map (\<lambda>row. np_sum (map (\<lambda>(j, w). w * x ! j) row)) C"

text \<open>
  \<open>std_u\<close> is a number (a Python float or a numpy scalar, which are immutable) or a
  numpy array holding one value (of shape \<open>()\<close> or \<open>(1,)\<close>), which numpy broadcasts
  over the cells like the number. The two differ under \<open>std_u /= scaling\<close>: for a
  number the statement binds the local name to the quotient, for an array it divides the
  array of the caller in place.
\<close>

datatype std = Number npf | Ndarray npf

fun std_value :: "std \<Rightarrow> npf" where
  "std_value (Number x) = x"
| "std_value (Ndarray x) = x"

text \<open>The keyword arguments of \<open>compute_divergence\<close>, but for \<open>mode\<close>.\<close>

record cd_args =
  arg_u :: "npf list"
  arg_s :: "npf list"
  arg_alpha :: npf
  arg_beta :: npf
  arg_gamma :: npf
  arg_scaling :: npf
  arg_t' :: "npf option"
  arg_u0' :: "npf option"
  arg_s0' :: "npf option"
  arg_tau :: "npf list option"
  arg_tau' :: "npf list option"
  arg_std_u :: std
  arg_std_s :: npf
  arg_normalized :: bool
  arg_assignment_mode :: "string option"
  arg_var_scale :: bool
  arg_fit_steady_states :: bool
  arg_connectivities :: conn
  arg_constraint_time_increments :: bool

text \<open>What \<open>compute_divergence\<close> returns, by mode.\<close>

datatype result =
    Array2 "npf list list"
  | Array1 "npf list"
  | TauPair "npf list" "npf list"
  | HardEval nat nat "npf list" "npf list"
  | States "nat list"
  | Timepoints "npf list" "npf list" "nat list"


text \<open>
  \<open>compute_divergence\<close> follows in four parts, in the order of the source. The first
  sets \<open>u0_\<close>, \<open>s0_\<close>, \<open>tau\<close>, \<open>tau_\<close> and \<open>t_\<close>:
  \<^verbatim>\<open>    # set tau, tau_
    if u0_ is None or s0_ is None:
        u0_, s0_ = mRNA(t_, 0, 0, alpha, beta, gamma)
    if tau is None or tau_ is None or t_ is None:
        tau, tau_, t_ = assign_tau(u, s, alpha, beta, gamma, t_, u0_, s0_, assignment_mode)
    std_u /= scaling\<close>
  \<open>mRNA\<close> of a \<open>t_\<close> that is None raises TypeError. The last component of the result
  says whether \<open>tau\<close> and \<open>tau_\<close> still are the arrays the caller passed (then every
  later write in place lands in the caller's arrays) or new ones made by \<open>assign_tau\<close>.
\<close>

definition set_tau ::
  "cd_args \<Rightarrow> error + npf list \<times> npf list \<times> npf option \<times> npf \<times> npf \<times> bool" where
  "set_tau a =
     (case (case (arg_u0' a, arg_s0' a) of
              (Some u0, Some s0) \<Rightarrow> Inr (u0, s0)
            | _ \<Rightarrow> (case arg_t' a of
                      None \<Rightarrow> Inl TypeError
                    | Some t_sw \<Rightarrow> Inr (mRNA t_sw (Fin 0) (Fin 0) (arg_alpha a) (arg_beta a)
                                          (arg_gamma a)))) of
        Inl e \<Rightarrow> Inl e
      | Inr (u0', s0') \<Rightarrow>
          (case (arg_tau a, arg_tau' a, arg_t' a) of
             (Some tau, Some tau', Some t_sw) \<Rightarrow> Inr (tau, tau', Some t_sw, u0', s0', True)
           | _ \<Rightarrow> (case assign_tau (arg_u a) (arg_s a) (arg_alpha a) (arg_beta a) (arg_gamma a)
                            (arg_t' a) u0' s0' (arg_assignment_mode a) of
                     Inl e \<Rightarrow> Inl e
                   | Inr (tau, tau', t') \<Rightarrow> Inr (tau, tau', t', u0', s0', False))))"

text \<open>\<open>(x - xt) / sd\<close> on arrays \<open>x\<close>, \<open>xt\<close> and a scalar \<open>sd\<close>; \<open>a ** 2 + b ** 2\<close>.\<close>

definition resid :: "npf list \<Rightarrow> npf list \<Rightarrow> npf \<Rightarrow> npf list" where
  "resid x xt sd = map (\<lambda>d. d / sd) (map2 (-) x xt)"

definition sq_sum :: "npf list \<Rightarrow> npf list \<Rightarrow> npf list" where
  "sq_sum a b = map2 (+) (map sq a) (map sq b)"

text \<open>
  \<^verbatim>\<open>    # adjust increments of tau, tau_ to avoid meaningless jumps
    if constraint_time_increments:
        ut, st = mRNA(tau, 0, 0, alpha, beta, gamma)
        ut_, st_ = mRNA(tau_, u0_, s0_, 0, beta, gamma)
        distu, distu_ = (u - ut) / std_u, (u - ut_) / std_u
        dists, dists_ = (s - st) / std_s, (s - st_) / std_s
        o = np.argmin(np.array([distu_ ** 2 + dists_ ** 2, distu ** 2 + dists ** 2]), axis=0)
        off, on = o == 0, o == 1
        if np.any(on): tau[on] = adjust_increments(tau[on])
        if np.any(off): tau_[off] = adjust_increments(tau_[off])\<close>
  The two assignments write into the arrays \<open>tau\<close> and \<open>tau_\<close> in place.
\<close>

definition adjust_tau ::
  "cd_args \<Rightarrow> npf \<Rightarrow> npf \<Rightarrow> npf list \<Rightarrow> npf list \<Rightarrow> error + npf list \<times> npf list" where
  "adjust_tau a u0' s0' tau tau' =
     (if arg_constraint_time_increments a then
        (let std_u = std_value (arg_std_u a) / arg_scaling a;
             (ut, st) = mRNA_arr tau (Fin 0) (Fin 0) (arg_alpha a) (arg_beta a) (arg_gamma a);
             (ut', st') = mRNA_arr tau' u0' s0' (Fin 0) (arg_beta a) (arg_gamma a);
             distu = resid (arg_u a) ut std_u;
             distu' = resid (arg_u a) ut' std_u;
             dists = resid (arg_s a) st (arg_std_s a);
             dists' = resid (arg_s a) st' (arg_std_s a);
             ov = argmin_axis0 [sq_sum distu' dists', sq_sum distu dists];
             off = map (\<lambda>k. k = 0) ov;
             on = map (\<lambda>k. k = 1) ov
         in case (if True \<in> set on
                  then (case adjust_increments (mask_select on tau) of
                          Inl e \<Rightarrow> Inl e
                        | Inr v \<Rightarrow> Inr (mask_assign on tau v))
                  else Inr tau) of
              Inl e \<Rightarrow> Inl e
            | Inr tau \<Rightarrow>
                (case (if True \<in> set off
                       then (case adjust_increments (mask_select off tau') of
                               Inl e \<Rightarrow> Inl e
                             | Inr v \<Rightarrow> Inr (mask_assign off tau' v))
                       else Inr tau') of
                   Inl e \<Rightarrow> Inl e
                 | Inr tau' \<Rightarrow> Inr (tau, tau')))
      else Inr (tau, tau'))"

text \<open>
  \<^verbatim>\<open>    # compute distances from states (induction state, repression state, steady state)
    ut, st = mRNA(tau, 0, 0, alpha, beta, gamma)
    ut_, st_ = mRNA(tau_, u0_, s0_, 0, beta, gamma)
    distu, distu_ = (u - ut) / std_u, (u - ut_) / std_u
    dists, dists_ = (s - st) / std_s, (s - st_) / std_s
    distx = distu ** 2 + dists ** 2
    distx_ = distu_ ** 2 + dists_ ** 2
    if var_scale:
        o = np.argmin([distx_, distx], axis=0)
        varu = np.nanvar(distu * o + distu_ + (1 - o), axis=0)
        vars = np.nanvar(dists * o + dists_ + (1 - o), axis=0)
        distx = distu ** 2 / varu + dists ** 2 / vars
        distx_ = distu_ ** 2 / varu + dists_ ** 2 / vars
    else:
        varu, vars = 1, 1
    if fit_steady_states:
        distx_steady = ((u - alpha / beta) / std_u) ** 2 / varu
                       + ((s - alpha / gamma) / std_s) ** 2 / vars
        distx_steady_ = (u / std_u) ** 2 / varu + (s / std_s) ** 2 / vars
        res = np.array([distx_, distx, distx_steady_, distx_steady])
    else:
        res = np.array([distx_, distx])
    if connectivities is not None and connectivities is not False:
        if res.ndim > 2:
            res = np.array([connectivities.dot(r) for r in res])
        else:
            res = connectivities.dot(res.T).T\<close>
  With one-dimensional \<open>u\<close> and \<open>s\<close> the array \<open>res\<close> has two dimensions: row 0 is the
  distance to the repression curve, row 1 to the induction curve, row 2 to the steady
  state at the origin, row 3 to the steady state at (alpha / beta, alpha / gamma). The
  result is \<open>(res, varu, vars, ut, ut_, st, st_)\<close>. The array \<open>o\<close> of the source is
  \<open>ov\<close> here, and \<open>var_mix d d' ov\<close> is \<open>d * o + d_ + (1 - o)\<close>.
\<close>

definition var_mix :: "npf list \<Rightarrow> npf list \<Rightarrow> nat list \<Rightarrow> npf list" where
  "var_mix d d' ov =
     map (\<lambda>i. d ! i * Fin (real (ov ! i)) + d' ! i + Fin (1 - real (ov ! i))) [0..<length d]"

definition state_dists ::
  "cd_args \<Rightarrow> npf \<Rightarrow> npf \<Rightarrow> npf list \<Rightarrow> npf list \<Rightarrow>
   npf list list \<times> npf \<times> npf \<times> npf list \<times> npf list \<times> npf list \<times> npf list" where
  "state_dists a u0' s0' tau tau' =
     (let std_u = std_value (arg_std_u a) / arg_scaling a;
          std_s = arg_std_s a;
          (ut, st) = mRNA_arr tau (Fin 0) (Fin 0) (arg_alpha a) (arg_beta a) (arg_gamma a);
          (ut', st') = mRNA_arr tau' u0' s0' (Fin 0) (arg_beta a) (arg_gamma a);
          distu = resid (arg_u a) ut std_u;
          distu' = resid (arg_u a) ut' std_u;
          dists = resid (arg_s a) st std_s;
          dists' = resid (arg_s a) st' std_s;
          distx = sq_sum distu dists;
          distx' = sq_sum distu' dists';
          (varu, vars, distx, distx') =
            (if arg_var_scale a then
               (let ov = argmin_axis0 [distx', distx];
                    varu = np_nanvar (var_mix distu distu' ov);
                    vars = np_nanvar (var_mix dists dists' ov)
                in (varu, vars,
                    map2 (+) (map (\<lambda>d. sq d / varu) distu) (map (\<lambda>d. sq d / vars) dists),
                    map2 (+) (map (\<lambda>d. sq d / varu) distu') (map (\<lambda>d. sq d / vars) dists')))
             else (Fin 1, Fin 1, distx, distx'));
          res =
            (if arg_fit_steady_states a then
               (let distx_steady =
                      map2 (+)
                        (map (\<lambda>x. sq ((x - arg_alpha a / arg_beta a) / std_u) / varu) (arg_u a))
                        (map (\<lambda>x. sq ((x - arg_alpha a / arg_gamma a) / std_s) / vars) (arg_s a));
                    distx_steady' =
                      map2 (+) (map (\<lambda>x. sq (x / std_u) / varu) (arg_u a))
                        (map (\<lambda>x. sq (x / std_s) / vars) (arg_s a))
                in [distx', distx, distx_steady', distx_steady])
             else [distx', distx]);
          res = (case arg_connectivities a of
                   CMatrix C \<Rightarrow> map (sp_dot C) res
                 | _ \<Rightarrow> res)
      in (res, varu, vars, ut, ut', st, st'))"


text \<open>
  The last part is the dispatch on \<open>mode\<close> (the tests \<open>mode is 'tau'\<close> and so on compare
  string identities, which for interned literals is the equality of the strings). In
  the source's names, with \<open>o\<close> written \<open>ov\<close> and \<open>o_\<close> written \<open>ov'\<close>:
  \<^verbatim>\<open>    if mode is 'tau':
        res = [tau, tau_]
    elif mode is 'likelihood':
        res = 1 / (2 * np.pi * np.sqrt(varu * vars)) * np.exp(-.5 * res)
        if normalized: res = normalize(res)
    elif mode is 'nll':
        res = np.log(2 * np.pi * np.sqrt(varu * vars)) + .5 * res
        if normalized: res = normalize(res)
    elif mode is 'soft_eval':
        res = 1 / (2 * np.pi * np.sqrt(varu * vars)) * np.exp(-.5 * res)
        if fit_steady_states:
            steady = np.max([res[2], res[3]], axis=0)
            res = np.clip(res - steady, 0, None)
        if normalized:
            res = normalize(res)
        o_, o = res[0], res[1]
        res = np.array([o_, o, ut * o + ut_ * o_, st * o + st_ * o_])
    elif mode is 'hard_eval':
        o = np.argmin(res, axis=0)
        o_, o = o[0], o[1]
        res = np.array([o_, o, ut * o + ut_ * o_, st * o + st_ * o_])
    elif mode is 'soft_state':
        res = 1 / (2 * np.pi * np.sqrt(varu * vars)) * np.exp(-.5 * res)
        if normalized: res = normalize(res)
        res = res[1] - res[0]
    elif mode is 'hard_state':
        res = np.argmin(res, axis=0)
    elif mode is 'steady_state':
        res = 1 / (2 * np.pi * np.sqrt(varu * vars)) * np.exp(-.5 * res)
        if normalized: res = normalize(res)
        res = res[2] + res[3]
    elif mode is 'assign_timepoints':
        o = np.argmin(res, axis=0)
        # ToDo: adjust distx_steady to adjust likelihood
        if False and fit_steady_states:
            idx_steady = (distx_steady < 1)
            tau_[idx_steady], o[idx_steady] = 0, 0
        tau_ *= (o == 0)
        tau  *= (o == 1)
        if 2 in o: o[o == 2] = 1
        if 3 in o: o[o == 3] = 0
        t = tau * (o == 1) + (tau_ + t_) * (o == 0)
        res = [t, tau, o]
    return res\<close>
  In \<open>hard_eval\<close> the array \<open>o\<close> has one entry for each cell, so \<open>o[0]\<close> and
  \<open>o[1]\<close> are the entries of the first two cells (IndexError with fewer than two cells);
  the array built from two integers and two float arrays is, in the numpy the module was
  written for, an array of four objects. The two updates \<open>*=\<close> of \<open>assign_timepoints\<close>
  write into the arrays \<open>tau_\<close> and \<open>tau\<close> in place. The result is the value returned
  (or the exception), with \<open>tau\<close> and \<open>tau_\<close> as they are at the end.
\<close>

definition lik :: "npf \<Rightarrow> npf \<Rightarrow> npf \<Rightarrow> npf" where
  "lik varu vars r =
     Fin 1 / (Fin 2 * Fin pi * np_sqrt (varu * vars)) * exp_np (Fin (- (1 / 2)) * r)"

definition blend :: "npf list \<Rightarrow> npf list \<Rightarrow> npf list \<Rightarrow> npf list \<Rightarrow> npf list" where
  "blend x w x' w' = map2 (+) (map2 (*) x w) (map2 (*) x' w')"

definition by_mode ::
  "cd_args \<Rightarrow> string \<Rightarrow> npf option \<Rightarrow> npf list \<Rightarrow> npf list \<Rightarrow>
   npf list list \<times> npf \<times> npf \<times> npf list \<times> npf list \<times> npf list \<times> npf list \<Rightarrow>
   (error + result) \<times> npf list \<times> npf list" where
  "by_mode a mode t' tau tau' d =
     (let (res, varu, vars, ut, ut', st, st') = d in
      if mode = ''tau'' then (Inr (TauPair tau tau'), tau, tau')
      else if mode = ''likelihood'' then
        (let res = map (map (lik varu vars)) res
         in (Inr (Array2 (if arg_normalized a then normalize res else res)), tau, tau'))
      else if mode = ''nll'' then
        (let res = map (map (\<lambda>r. np_log (Fin 2 * Fin pi * np_sqrt (varu * vars))
                                   + Fin (1 / 2) * r)) res
         in (Inr (Array2 (if arg_normalized a then normalize res else res)), tau, tau'))
      else if mode = ''soft_eval'' then
        (let res = map (map (lik varu vars)) res;
             res = (if arg_fit_steady_states a
                    then (let steady = map2 np_maximum (res ! 2) (res ! 3)
                          in map (\<lambda>r. map2 (\<lambda>x m. np_maximum (x - m) (Fin 0)) r steady) res)
                    else res);
             res = (if arg_normalized a then normalize res else res);
             ov' = res ! 0;
             ov = res ! 1
         in (Inr (Array2 [ov', ov, blend ut ov ut' ov', blend st ov st' ov']), tau, tau'))
      else if mode = ''hard_eval'' then
        (let ov = argmin_axis0 res
         in if length ov < 2 then (Inl IndexError, tau, tau')
            else (let ov' = Fin (real (ov ! 0));
                      ov = Fin (real (ov ! 1))
                  in (Inr (HardEval (argmin_axis0 res ! 0) (argmin_axis0 res ! 1)
                             (map2 (+) (map (\<lambda>x. x * ov) ut) (map (\<lambda>x. x * ov') ut'))
                             (map2 (+) (map (\<lambda>x. x * ov) st) (map (\<lambda>x. x * ov') st'))),
                      tau, tau')))
      else if mode = ''soft_state'' then
        (let res = map (map (lik varu vars)) res;
             res = (if arg_normalized a then normalize res else res)
         in (Inr (Array1 (map2 (-) (res ! 1) (res ! 0))), tau, tau'))
      else if mode = ''hard_state'' then (Inr (States (argmin_axis0 res)), tau, tau')
      else if mode = ''steady_state'' then
        (let res = map (map (lik varu vars)) res;
             res = (if arg_normalized a then normalize res else res)
         in if length res < 4 then (Inl IndexError, tau, tau')
            else (Inr (Array1 (map2 (+) (res ! 2) (res ! 3))), tau, tau'))
      else if mode = ''assign_timepoints'' then
        (let ov = argmin_axis0 res;
             tau' = map2 (\<lambda>x k. x * b2f (k = 0)) tau' ov;
             tau = map2 (\<lambda>x k. x * b2f (k = 1)) tau ov;
             ov = map (\<lambda>k. if k = 2 then 1 else k) ov;
             ov = map (\<lambda>k. if k = 3 then 0 else k) ov
         in case t' of
              None \<Rightarrow> (Inl TypeError, tau, tau')
            | Some t_sw \<Rightarrow>
                (let t = map2 (+) (map2 (\<lambda>x k. x * b2f (k = 1)) tau ov)
                           (map2 (\<lambda>x k. (x + t_sw) * b2f (k = 0)) tau' ov)
                 in (Inr (Timepoints t tau ov), tau, tau')))
      else (Inr (Array2 res), tau, tau'))"

text \<open>
  \<^verbatim>\<open>def compute_divergence(u, s, alpha, beta, gamma, scaling=1, t_=None, u0_=None,
        s0_=None, tau=None, tau_=None, std_u=1, std_s=1, normalized=False,
        mode='distance', assignment_mode=None, var_scale=False, fit_steady_states=True,
        connectivities=None, constraint_time_increments=True)\<close>
  The model returns, with the value returned (or the exception raised), the contents
  after the call of the two arrays the caller passed as \<open>tau\<close> and \<open>tau_\<close> (None where
  the caller passed None). They are two different arrays. When \<open>tau\<close>, \<open>tau_\<close> and
  \<open>t_\<close> are all given, the function works on the caller's arrays; otherwise
  \<open>assign_tau\<close> makes new ones and the caller's stay as they were. An exception inside
  the increment adjustment is only possible on an empty selection, which the tests
  \<open>np.any\<close> exclude. What the call leaves in the caller's \<open>std_u\<close> is
  \<open>std_u_after\<close> below.
\<close>

definition compute_divergence ::
  "cd_args \<Rightarrow> string \<Rightarrow> (error + result) \<times> npf list option \<times> npf list option" where
  "compute_divergence a mode =
     (case set_tau a of
        Inl e \<Rightarrow> (Inl e, arg_tau a, arg_tau' a)
      | Inr (tau, tau', t', u0', s0', own) \<Rightarrow>
          (case adjust_tau a u0' s0' tau tau' of
             Inl e \<Rightarrow> (Inl e, arg_tau a, arg_tau' a)
           | Inr (tau, tau') \<Rightarrow>
               (let (r, tau, tau') = by_mode a mode t' tau tau' (state_dists a u0' s0' tau tau')
                in if own then (r, Some tau, Some tau') else (r, arg_tau a, arg_tau' a))))"

text \<open>
  \<^verbatim>\<open>def assign_timepoints(**kwargs):
    return compute_divergence(**kwargs, mode='assign_timepoints')\<close>
\<close>

definition assign_timepoints ::
  "cd_args \<Rightarrow> (error + result) \<times> npf list option \<times> npf list option" where
  "assign_timepoints kwargs = compute_divergence kwargs ''assign_timepoints''"

text \<open>The defaults of the keyword arguments, for given \<open>u\<close>, \<open>s\<close> and rates.\<close>

definition default_args :: "npf list \<Rightarrow> npf list \<Rightarrow> npf \<Rightarrow> npf \<Rightarrow> npf \<Rightarrow> cd_args" where
  "default_args u s alpha beta gamma =
     \<lparr>arg_u = u, arg_s = s, arg_alpha = alpha, arg_beta = beta, arg_gamma = gamma,
      arg_scaling = Fin 1, arg_t' = None, arg_u0' = None, arg_s0' = None, arg_tau = None,
      arg_tau' = None, arg_std_u = Number (Fin 1), arg_std_s = Fin 1, arg_normalized = False,
      arg_assignment_mode = None, arg_var_scale = False, arg_fit_steady_states = True,
      arg_connectivities = CNone, arg_constraint_time_increments = True\<rparr>"


text \<open>
  An example call: rates alpha = 1, beta = 1, gamma = 2, switching time \<open>t_ = 1\<close>, the
  repression curve starting at (5, 5), and the caller's \<open>tau\<close> and \<open>tau_\<close> all zero, so
  that the induction curve is at (0, 0) and the repression curve at (5, 5) for every cell.
\<close>

definition zero_start_args :: "npf list \<Rightarrow> npf list \<Rightarrow> cd_args" where
  "zero_start_args u s =
     (default_args u s (Fin 1) (Fin 1) (Fin 2))
       \<lparr>arg_t' := Some (Fin 1), arg_u0' := Some (Fin 5), arg_s0' := Some (Fin 5),
        arg_tau := Some (map (\<lambda>x. Fin 0) u), arg_tau' := Some (map (\<lambda>x. Fin 0) u)\<rparr>"


text \<open>
  The arguments that \<open>compute_divergence\<close> writes in place are \<open>tau\<close>,
  \<open>tau_\<close> (above) and \<open>std_u\<close>; every other name is only read or bound anew. The
  statement \<open>std_u /= scaling\<close> runs once \<open>u0_\<close>, \<open>s0_\<close>, \<open>tau\<close>, \<open>tau_\<close>
  and \<open>t_\<close> are set, so an exception before it leaves \<open>std_u\<close> as it was.
  \<open>std_u_after\<close> is the \<open>std_u\<close> of the caller after the call.
\<close>

definition std_u_after :: "cd_args \<Rightarrow> std" where
  "std_u_after a =
     (case set_tau a of
        Inl e \<Rightarrow> arg_std_u a
      | Inr p \<Rightarrow> (case arg_std_u a of
                   Number x \<Rightarrow> Number x
                 | Ndarray x \<Rightarrow> Ndarray (x / arg_scaling a)))"

text \<open>
  Two successive calls of \<open>assign_timepoints\<close> with the same keyword arguments: the
  objects passed as \<open>tau\<close>, \<open>tau_\<close> and \<open>std_u\<close> are the same in both calls, so
  the second call reads them as the first call left them. The result is the pair of the
  values the two calls return.
\<close>

definition assign_timepoints_twice :: "cd_args \<Rightarrow> (error + result) \<times> (error + result)" where
  "assign_timepoints_twice kwargs =
     (let (r1, tau1, tau1') = assign_timepoints kwargs;
          std_u1 = std_u_after kwargs;
          (r2, tau2, tau2') = assign_timepoints
                                (kwargs\<lparr>arg_tau := tau1, arg_tau' := tau1', arg_std_u := std_u1\<rparr>)
      in (r1, r2))"

text \<open>
  Two more example calls: one cell at the switching point of the model with rates 1, 1, 2
  and \<open>t_ = ln 2\<close>, which is (1/2, 1/8), with \<open>tau = tau_ = [ln 2]\<close>; and a call that
  passes \<open>tau\<close> and \<open>tau_\<close> but no \<open>t_\<close>.
\<close>

definition switch_point_args :: cd_args where
  "switch_point_args =
     (default_args [Fin (1 / 2)] [Fin (1 / 8)] (Fin 1) (Fin 1) (Fin 2))
       \<lparr>arg_t' := Some (Fin (ln 2)), arg_tau := Some [Fin (ln 2)],
        arg_tau' := Some [Fin (ln 2)]\<rparr>"


text \<open>
  Two example calls that pass neither \<open>tau\<close> nor \<open>tau_\<close>, with rates 1, 1, 2 and
  \<open>t_ = ln 2\<close>. In the first, one cell lies on the induction curve, at (1/4, 1/32), and
  one on the repression curve, at (1/4, 5/32). In the second, \<open>std_u\<close> is an array
  holding 4 and \<open>scaling\<close> is 2.
\<close>

definition curve_cells_args :: cd_args where
  "curve_cells_args =
     (default_args [Fin (1 / 4), Fin (1 / 4)] [Fin (1 / 32), Fin (5 / 32)] (Fin 1) (Fin 1) (Fin 2))
       \<lparr>arg_t' := Some (Fin (ln 2))\<rparr>"

definition scaled_std_args :: cd_args where
  "scaled_std_args =
     (default_args [Fin (1 / 4)] [Fin 1] (Fin 1) (Fin 1) (Fin 2))
       \<lparr>arg_t' := Some (Fin (ln 2)), arg_std_u := Ndarray (Fin 4), arg_scaling := Fin 2\<rparr>"

section \<open>The bound of the spec on the time steps\<close>

text \<open>
  The spec's reading of \<open>compute_dt\<close>, on the real numbers of one column: the gaps are
  the differences of consecutive sorted times, the first one taken against the least
  time; the bound is \<open>m + 3 * sqrt m\<close> with \<open>m\<close> the larger of the mean gap and
  \<open>max(t) / len(t)\<close>.
\<close>

fun diffs :: "real \<Rightarrow> real list \<Rightarrow> real list" where
  "diffs p [] = []"
| "diffs p (x # xs) = (x - p) # diffs x xs"

definition gaps :: "real list \<Rightarrow> real list" where
  "gaps xs = diffs (Min (set xs)) (sort xs)"

definition mean_gap :: "real list \<Rightarrow> real" where
  "mean_gap xs = sum_list (gaps xs) / real (length xs)"

definition dt_bound :: "real list \<Rightarrow> real" where
  "dt_bound xs =
     (let m = max (mean_gap xs) (Max (set xs) / real (length xs)) in m + 3 * sqrt m)"

section \<open>Properties of the arithmetic\<close>

lemma nan_absorbs [simp]:
  "x + NaN = NaN" "NaN + x = NaN" "x * NaN = NaN" "NaN * x = NaN"
  "x / NaN = NaN" "NaN / x = NaN" "x - NaN = NaN" "NaN - x = NaN"
  by (cases x; simp add: minus_npf_def)+

lemma fin_minus [simp]: "Fin a - Fin b = Fin (a - b)"
  by (simp add: minus_npf_def)

lemma b2f_simps [simp]: "b2f True = Fin 1" "b2f False = Fin 0"
  by (simp_all add: b2f_def)

lemma ne_fin [simp]: "ne (Fin a) (Fin b) = (a \<noteq> b)"
  by (simp add: ne_def eq_def)

lemma np_maximum_fin: "np_maximum (Fin a) (Fin b) = Fin (max a b)"
  by (simp add: np_maximum_def max_def)

lemma np_minimum_fin: "np_minimum (Fin a) (Fin b) = Fin (min a b)"
  by (simp add: np_minimum_def min_def)

lemma np_clip_fin: "np_clip (Fin d) (Fin lo) (Fin hi) = Fin (min (max d lo) hi)"
  by (simp add: np_clip_def np_maximum_fin np_minimum_fin)

section \<open>The guarded reciprocal and logarithm\<close>

lemma inv_np_nonzero: "x \<noteq> 0 \<Longrightarrow> inv_np (Fin x) = Fin (1 / x)"
  by (simp add: inv_np_def)

lemma inv_np_infinite: "inv_np PInf = Fin 0" "inv_np NInf = Fin 0"
  by (simp_all add: inv_np_def ne_def eq_def)

text \<open>
  C1. The claim is that \<open>inv\<close> returns 0 at 0, so that no infinity or NaN of a division
  by zero reaches a caller. The code computes \<open>1 / x\<close> first, which at 0 is an infinity,
  and the product of an infinity with the mask value 0 is NaN: \<open>inv(0)\<close> is NaN.
\<close>

theorem inv_np_zero_is_nan: "inv_np (Fin 0) = NaN"
  by (simp add: inv_np_def)

text \<open>
  C9. For every real \<open>x\<close> the guarded logarithm is the natural logarithm of \<open>x\<close> clamped
  into \<open>[1e-6, 1 - 1e-6]\<close>, a finite number between \<open>ln 1e-6\<close> and \<open>ln (1 - 1e-6)\<close>;
  an infinite argument is clamped as well.
\<close>

theorem log_np_clamped:
  "log_np (Fin x) eps_default = Fin (ln (min (max x (1 / 10 ^ 6)) (1 - 1 / 10 ^ 6)))
   \<and> ln (1 / 10 ^ 6) \<le> ln (min (max x (1 / 10 ^ 6)) (1 - 1 / 10 ^ 6))
   \<and> ln (min (max x (1 / 10 ^ 6)) (1 - 1 / 10 ^ 6)) \<le> ln (1 - 1 / 10 ^ 6 :: real)
   \<and> log_np PInf eps_default = Fin (ln (1 - 1 / 10 ^ 6))
   \<and> log_np NInf eps_default = Fin (ln (1 / 10 ^ 6))"
proof -
  let ?c = "min (max x (1 / 10 ^ 6)) (1 - 1 / 10 ^ 6 :: real)"
  have pos: "0 < ?c" by (simp add: min_def max_def)
  have lo: "1 / 10 ^ 6 \<le> ?c" by (simp add: min_def max_def)
  have hi: "?c \<le> 1 - 1 / 10 ^ 6" by simp
  have 1: "log_np (Fin x) eps_default = Fin (ln ?c)"
    using pos by (simp add: log_np_def eps_default_def np_clip_fin)
  have 2: "ln (1 / 10 ^ 6) \<le> ln ?c"
    using lo pos by (subst ln_le_cancel_iff) simp_all
  have 3: "ln ?c \<le> ln (1 - 1 / 10 ^ 6 :: real)"
    using hi pos by (subst ln_le_cancel_iff) simp_all
  have 4: "log_np PInf eps_default = Fin (ln (1 - 1 / 10 ^ 6))"
    by (simp add: log_np_def eps_default_def np_clip_def np_maximum_def np_minimum_def)
  have 5: "log_np NInf eps_default = Fin (ln (1 / 10 ^ 6))"
    by (simp add: log_np_def eps_default_def np_clip_def np_maximum_def np_minimum_def)
  from 1 2 3 4 5 show ?thesis by blast
qed

section \<open>The kinetic model at time zero\<close>

lemma unspliced_boundary:
  "beta \<noteq> 0 \<Longrightarrow> unspliced (Fin 0) (Fin u0) (Fin alpha) (Fin beta) = Fin u0"
  by (simp add: unspliced_def)

lemma spliced_boundary:
  "gamma \<noteq> 0 \<Longrightarrow> gamma \<noteq> beta \<Longrightarrow>
   spliced (Fin 0) (Fin s0) (Fin u0) (Fin alpha) (Fin beta) (Fin gamma) = Fin s0"
  by (simp add: spliced_def inv_np_def)

text \<open>
  C4. The claim is that \<open>spliced\<close> returns \<open>s0\<close> at \<open>tau = 0\<close> for all positive rates,
  the case \<open>gamma = beta\<close> included. For \<open>gamma \<noteq> beta\<close> it does (lemma
  \<open>spliced_boundary\<close>, and \<open>unspliced_boundary\<close> for the unspliced level). For
  \<open>gamma = beta\<close> the coefficient \<open>c\<close> is a product with \<open>inv(0)\<close>, which is NaN, and
  the result is NaN whatever the other arguments are.
\<close>

theorem spliced_degenerate_is_nan:
  "spliced (Fin 0) (Fin s0) (Fin u0) (Fin alpha) (Fin beta) (Fin beta) = NaN"
  by (simp add: spliced_def inv_np_def)


section \<open>The time steps\<close>

lemma np_insort_fin: "np_insort (Fin x) (map Fin ys) = map Fin (insort x ys)"
  by (induction ys) auto

lemma np_sort_fin: "np_sort (map Fin xs) = map Fin (sort xs)"
  unfolding np_sort_def by (induction xs) (auto simp: np_insort_fin)

lemma foldl_np_minimum_fin: "foldl np_minimum (Fin x) (map Fin r) = Fin (fold min r x)"
  by (induction r arbitrary: x) (auto simp: np_minimum_fin min.commute)

lemma foldl_np_maximum_fin: "foldl np_maximum (Fin x) (map Fin r) = Fin (fold max r x)"
  by (induction r arbitrary: x) (auto simp: np_maximum_fin max.commute)

lemma np_amin_fin: "xs \<noteq> [] \<Longrightarrow> np_amin (map Fin xs) = Inr (Fin (Min (set xs)))"
proof (cases xs)
  case (Cons a r)
  then show ?thesis using Min.set_eq_fold [of a r] by (simp add: np_amin_def foldl_np_minimum_fin)
qed simp

lemma np_amax_fin: "xs \<noteq> [] \<Longrightarrow> np_amax (map Fin xs) = Inr (Fin (Max (set xs)))"
proof (cases xs)
  case (Cons a r)
  then show ?thesis using Max.set_eq_fold [of a r] by (simp add: np_amax_def foldl_np_maximum_fin)
qed simp

lemma np_diff_fin: "np_diff (Fin p) (map Fin xs) = map Fin (diffs p xs)"
  by (induction xs arbitrary: p) simp_all

lemma foldl_plus_fin: "foldl (+) (Fin a) (map Fin xs) = Fin (a + sum_list xs)"
  by (induction xs arbitrary: a) (simp_all add: add.assoc)

lemma np_sum_fin: "np_sum (map Fin xs) = Fin (sum_list xs)"
  by (simp add: np_sum_def foldl_plus_fin)

lemma length_diffs: "length (diffs p xs) = length xs"
  by (induction xs arbitrary: p) simp_all

lemma np_mean_fin: "xs \<noteq> [] \<Longrightarrow> np_mean (map Fin xs) = Fin (sum_list xs / real (length xs))"
  by (simp add: np_mean_def np_sum_fin)

lemma diffs_nonneg: "sorted (p # xs) \<Longrightarrow> \<forall>d\<in>set (diffs p xs). 0 \<le> d"
  by (induction xs arbitrary: p) auto

lemma gaps_nonneg:
  assumes "d \<in> set (gaps xs)"
  shows "0 \<le> d"
proof -
  have "\<forall>x\<in>set (sort xs). Min (set xs) \<le> x" by simp
  then have "sorted (Min (set xs) # sort xs)" by simp
  from diffs_nonneg [OF this] assms show ?thesis by (simp add: gaps_def)
qed

lemma mean_gap_nonneg: "0 \<le> mean_gap xs"
  unfolding mean_gap_def by (intro divide_nonneg_nonneg sum_list_nonneg) (auto dest: gaps_nonneg)

lemma compute_dt_col_fin:
  assumes "xs \<noteq> []"
  shows "compute_dt_col (map Fin xs) True =
           Inr (map Fin (map (\<lambda>d. min (max d 0) (dt_bound xs)) (gaps xs)))"
proof -
  let ?m = "max (mean_gap xs) (Max (set xs) / real (length xs))"
  have m0: "0 \<le> ?m" using mean_gap_nonneg [of xs] by simp
  have g: "diffs (Min (set xs)) (sort xs) \<noteq> []" using assms
    by (metis length_diffs length_0_conv length_sort)
  have mean: "np_mean (map Fin (diffs (Min (set xs)) (sort xs))) = Fin (mean_gap xs)"
    using np_mean_fin [OF g] by (simp add: mean_gap_def gaps_def length_diffs)
  have mdt: "np_maximum (np_maximum (Fin (mean_gap xs)) (Fin (Max (set xs) / real (length xs))))
               (Fin 0) = Fin ?m"
    using assms m0 by (simp add: np_maximum_fin)
  show ?thesis
    using assms m0
    by (simp add: compute_dt_col_def np_amin_fin np_amax_fin np_sort_fin np_diff_fin mean
        mdt np_clip_fin gaps_def dt_bound_def Let_def o_def del: max.bounded_iff)
qed

lemma sequence_all_Inr: "sequence (map Inr xs) = Inr xs"
  by (induction xs) simp_all

lemma compute_dt_fin:
  assumes "\<forall>col\<in>set t. col \<noteq> []"
  shows "compute_dt (Dim2 (map (map Fin) t)) True =
           Inr (map (\<lambda>xs. map Fin (map (\<lambda>d. min (max d 0) (dt_bound xs)) (gaps xs))) t)"
proof -
  have "map (\<lambda>col. compute_dt_col col True) (map (map Fin) t)
        = map Inr (map (\<lambda>xs. map Fin (map (\<lambda>d. min (max d 0) (dt_bound xs)) (gaps xs))) t)"
    using assms by (simp add: compute_dt_col_fin)
  then show ?thesis by (simp only: compute_dt.simps sequence_all_Inr)
qed

lemma sqrt_three_quarters: "433 / 500 < sqrt (3 / 4)" "sqrt (3 / 4) < 8661 / 10000"
  by (rule real_less_rsqrt, simp add: power2_eq_square)
     (rule real_less_lsqrt, simp_all add: power2_eq_square)

lemma dt_bound_example: "dt_bound [0, 1, 2, 3] = 3 / 4 + 3 * sqrt (3 / 4)"
  by (simp add: dt_bound_def mean_gap_def gaps_def Let_def)

text \<open>
  C6. For a two-dimensional array of finite times with at least one row, \<open>compute_dt\<close>
  with clipping returns an array of finite steps of the same shape, and every step of a
  column is at most \<open>m + 3 * sqrt m\<close> for that column's \<open>m\<close>, the larger of the mean
  gap and \<open>max(t) / len(t)\<close>. For the one-column array of the times 0, 1, 2, 3 the
  steps before clipping are 0, 1, 1, 1 and the bound is within 0.001 of 3.348.
\<close>

theorem compute_dt_clipped_bound:
  assumes "\<forall>col\<in>set t. col \<noteq> []"
  shows "(\<exists>dt. compute_dt (Dim2 (map (map Fin) t)) True = Inr (map (map Fin) dt)
            \<and> length dt = length t
            \<and> (\<forall>j<length t. length (dt ! j) = length (t ! j)
                   \<and> (\<forall>d\<in>set (dt ! j). d \<le> dt_bound (t ! j))))
         \<and> compute_dt (Dim2 [[Fin 0, Fin 1, Fin 2, Fin 3]]) False = Inr [[Fin 0, Fin 1, Fin 1, Fin 1]]
         \<and> \<bar>dt_bound [0, 1, 2, 3] - 3348 / 1000\<bar> < 1 / 1000"
proof -
  let ?dt = "map (\<lambda>xs. map (\<lambda>d. min (max d 0) (dt_bound xs)) (gaps xs)) t"
  have "compute_dt (Dim2 (map (map Fin) t)) True = Inr (map (map Fin) ?dt)"
    using compute_dt_fin [OF assms] by (simp add: o_def)
  moreover have "length ?dt = length t" by simp
  moreover have "\<forall>j<length t. length (?dt ! j) = length (t ! j)
                   \<and> (\<forall>d\<in>set (?dt ! j). d \<le> dt_bound (t ! j))"
    by (auto simp: gaps_def length_diffs)
  ultimately have general: "\<exists>dt. compute_dt (Dim2 (map (map Fin) t)) True = Inr (map (map Fin) dt)
            \<and> length dt = length t
            \<and> (\<forall>j<length t. length (dt ! j) = length (t ! j)
                   \<and> (\<forall>d\<in>set (dt ! j). d \<le> dt_bound (t ! j)))"
    by blast
  have steps: "compute_dt (Dim2 [[Fin 0, Fin 1, Fin 2, Fin 3]]) False
                 = Inr [[Fin 0, Fin 1, Fin 1, Fin 1]]"
    by (simp add: compute_dt_col_def np_amin_def np_amax_def np_sort_def
        np_mean_def np_sum_def np_minimum_fin np_maximum_fin)
  have bound: "\<bar>dt_bound [0, 1, 2, 3] - 3348 / 1000\<bar> < 1 / 1000"
    using sqrt_three_quarters by (simp add: dt_bound_example abs_less_iff)
  from general steps bound show ?thesis by blast
qed

theorem compute_dt_clipped_bound_witness:
  "[0, 1, 2, 3 :: real] \<noteq> []
   \<and> (\<exists>dt. compute_dt (Dim2 [[Fin 0, Fin 1, Fin 2, Fin 3]]) True = Inr (map (map Fin) dt)
          \<and> length dt = 1
          \<and> length (dt ! 0) = 4
          \<and> (\<forall>d\<in>set (dt ! 0). d \<le> dt_bound [0, 1, 2, 3]))"
  using compute_dt_clipped_bound [of "[[0, 1, 2, 3]]"] by (simp add: eval_nat_numeral)

text \<open>
  The claim is for every input array and gives its example as the one-dimensional
  \<open>t = [0, 1, 2, 3]\<close>: on a one-dimensional array the code raises IndexError. And
  a time that is NaN gives a step that is NaN, which is not at most any bound.
\<close>

theorem compute_dt_one_dimensional_counterexample:
  "compute_dt (Dim1 [Fin 0, Fin 1, Fin 2, Fin 3]) True = Inl IndexError
   \<and> compute_dt (Dim2 [[NaN]]) True = Inr [[NaN]]"
  by (simp add: np_amin_def np_amax_def compute_dt_col_def np_sort_def np_clip_def
      np_maximum_def np_minimum_def)




section \<open>The inverse-time solver\<close>

lemma times_one [simp]: "x * Fin 1 = x"
  by (cases x) simp_all

lemma plus_zero [simp]: "x + Fin 0 = x" "Fin 0 + x = x"
  by (cases x; simp)+

lemma finite_times_zero: "is_finite x \<Longrightarrow> x * Fin 0 = Fin 0"
  by (cases x) simp_all

lemma bc_at_nth: "i < length xs \<Longrightarrow> bc_at xs i = xs ! i"
  by (auto simp: bc_at_def)

lemma bc_len_same:
  "bc_len [n, n, n, n, n, n, n] = n" "bc_len [n, n, n, n] = n" "bc_len [n, n] = n"
  by (simp_all add: bc_len_def)

lemma tau_inv_gamma_None:
  "tau_inv u s u0 s0 alpha beta None =
     Inr (map (\<lambda>i. tau_inv_u (bc_at u i) (bc_at u0 i) (bc_at alpha i) (bc_at beta i))
            [0..<bc_len [length u, length u0, length alpha, length beta]])"
  by (simp add: tau_inv_def)

lemma tau_inv_cells:
  assumes len: "length u = n" "length s = n" "length u0 = n" "length s0 = n"
    "length alpha = n" "length beta = n" "length gamma = n"
    and n: "0 < n"
  shows "\<exists>tau. tau_inv u (Some s) u0 (Some s0) alpha beta (Some gamma) = Inr tau
           \<and> length tau = n
           \<and> (\<forall>i<n.
                (ge (gamma ! i) (beta ! i)
                 \<and> (is_finite (tau_inv_us (u ! i) (s ! i) (u0 ! i) (s0 ! i) (alpha ! i) (beta ! i)
                                (gamma ! i))
                    \<or> (\<forall>j<n. ge (gamma ! j) (beta ! j)))
                 \<longrightarrow> tau ! i = tau_inv_u (u ! i) (u0 ! i) (alpha ! i) (beta ! i))
              \<and> (\<not> ge (gamma ! i) (beta ! i)
                 \<and> (is_finite (tau_inv_u (u ! i) (u0 ! i) (alpha ! i) (beta ! i))
                    \<or> (\<forall>j<n. \<not> ge (gamma ! j) (beta ! j)))
                 \<longrightarrow> tau ! i = tau_inv_us (u ! i) (s ! i) (u0 ! i) (s0 ! i) (alpha ! i)
                                (beta ! i) (gamma ! i)))"
proof -
  let ?P = "\<exists>j<n. ge (gamma ! j) (beta ! j)"
  let ?Q = "\<exists>j<n. \<not> ge (gamma ! j) (beta ! j)"
  let ?tu = "\<lambda>i. tau_inv_u (u ! i) (u0 ! i) (alpha ! i) (beta ! i)"
  let ?tus = "\<lambda>i. tau_inv_us (u ! i) (s ! i) (u0 ! i) (s0 ! i) (alpha ! i) (beta ! i) (gamma ! i)"
  let ?inv_u = "map (\<lambda>i. ge (bc_at gamma i) (bc_at beta i)) [0..<n]"
  have any_u: "True \<in> set ?inv_u \<longleftrightarrow> ?P"
    using len by (auto simp: bc_at_nth image_iff)
  have any_us: "True \<in> set (map Not ?inv_u) \<longleftrightarrow> ?Q"
    using len by (auto simp: bc_at_nth image_iff)
  have inv_u_nth: "\<And>i. i < n \<Longrightarrow> bc_at ?inv_u i = ge (gamma ! i) (beta ! i)"
    using len by (simp add: bc_at_nth)
  have inv_us_nth: "\<And>i. i < n \<Longrightarrow> bc_at (map Not ?inv_u) i = (\<not> ge (gamma ! i) (beta ! i))"
    using len by (simp add: bc_at_nth)
  have val_qp: "tau_inv u (Some s) u0 (Some s0) alpha beta (Some gamma) =
      Inr (map (\<lambda>i. ?tu i * b2f (ge (gamma ! i) (beta ! i))
                              + ?tus i * b2f (\<not> ge (gamma ! i) (beta ! i))) [0..<n])"
    if "?Q" "?P"
    unfolding tau_inv_def Let_def
    using len that
    by (simp only: bc_len_same any_u any_us option.simps prod.case if_True simp_thms)
       (simp add: bc_at_nth inv_u_nth inv_us_nth del: map_map)
  have val_q: "tau_inv u (Some s) u0 (Some s0) alpha beta (Some gamma) = Inr (map ?tus [0..<n])"
    if "?Q" "\<not> ?P"
    unfolding tau_inv_def Let_def
    using len that
    by (simp only: bc_len_same any_u any_us option.simps prod.case if_True if_False simp_thms)
       (simp add: bc_at_nth)
  have val_p: "tau_inv u (Some s) u0 (Some s0) alpha beta (Some gamma) = Inr (map ?tu [0..<n])"
    if "\<not> ?Q" "?P"
    unfolding tau_inv_def Let_def
    using len that
    by (simp only: bc_len_same any_u any_us option.simps prod.case if_True if_False simp_thms)
       (simp add: bc_at_nth)
  show ?thesis
  proof (cases ?Q)
    case q: True
    show ?thesis
    proof (cases ?P)
      case True
      show ?thesis unfolding val_qp [OF q True] using q True by (auto simp: finite_times_zero)
    next
      case False
      show ?thesis unfolding val_q [OF q False] using False by auto
    qed
  next
    case nq: False
    with n have p: "?P" by auto
    show ?thesis unfolding val_p [OF nq p] using nq by auto
  qed
qed

text \<open>
  C5. The claim has the two regimes the other way round. In the code a cell with
  \<open>gamma >= beta\<close> takes the value of the block \<open>tau_inv(u)\<close> (the unspliced-only
  formula) and a cell with \<open>gamma < beta\<close> the value of the block \<open>tau_inv(u, s)\<close>
  (the joint formula), cell by cell within one population. Where a population mixes both
  regimes the two arrays are blended by a multiplication with the 0/1 masks, so a cell
  takes the value of its formula when the value of the other formula at that cell is
  finite. With \<open>gamma\<close> None every cell takes the value of \<open>tau_inv(u)\<close>.
\<close>

theorem tau_inv_regimes:
  assumes len: "length u = n" "length s = n" "length u0 = n" "length s0 = n"
    "length alpha = n" "length beta = n" "length gamma = n"
    and n: "0 < n"
  shows "(\<exists>tau. tau_inv u (Some s) u0 (Some s0) alpha beta (Some gamma) = Inr tau
           \<and> length tau = n
           \<and> (\<forall>i<n.
                (ge (gamma ! i) (beta ! i)
                 \<and> (is_finite (tau_inv_us (u ! i) (s ! i) (u0 ! i) (s0 ! i) (alpha ! i) (beta ! i)
                                (gamma ! i))
                    \<or> (\<forall>j<n. ge (gamma ! j) (beta ! j)))
                 \<longrightarrow> tau ! i = tau_inv_u (u ! i) (u0 ! i) (alpha ! i) (beta ! i))
              \<and> (\<not> ge (gamma ! i) (beta ! i)
                 \<and> (is_finite (tau_inv_u (u ! i) (u0 ! i) (alpha ! i) (beta ! i))
                    \<or> (\<forall>j<n. \<not> ge (gamma ! j) (beta ! j)))
                 \<longrightarrow> tau ! i = tau_inv_us (u ! i) (s ! i) (u0 ! i) (s0 ! i) (alpha ! i)
                                (beta ! i) (gamma ! i))))
         \<and> tau_inv u (Some s) u0 (Some s0) alpha beta None =
             Inr (map (\<lambda>i. tau_inv_u (u ! i) (u0 ! i) (alpha ! i) (beta ! i)) [0..<n])"
proof -
  have "tau_inv u (Some s) u0 (Some s0) alpha beta None =
          Inr (map (\<lambda>i. tau_inv_u (u ! i) (u0 ! i) (alpha ! i) (beta ! i)) [0..<n])"
    using len by (simp add: tau_inv_gamma_None bc_len_same bc_at_nth)
  with tau_inv_cells [OF len n] show ?thesis by blast
qed

lemma eps_cell_u:
  "tau_inv_u (Fin 1) (Fin 0) (Fin 1) (Fin 1) = Fin (- ln (1 / 10 ^ 6))"
  by (simp add: tau_inv_u_def log_np_def eps_default_def np_clip_fin)

lemma eps_cell_us:
  "tau_inv_us (Fin 1) (Fin (1 / 2)) (Fin 0) (Fin 0) (Fin 1) (Fin 1) (Fin 2)
     = Fin (- (ln (1 / 10 ^ 6) / 2))"
  by (simp add: tau_inv_us_def inv_np_def log_np_def eps_default_def np_clip_fin)

lemma eps_cell_us_swapped:
  "tau_inv_us (Fin 1) (Fin (1 / 2)) (Fin 0) (Fin 0) (Fin 1) (Fin 2) (Fin 1)
     = Fin (- ln (1 / 10 ^ 6))"
  by (simp add: tau_inv_us_def inv_np_def log_np_def eps_default_def np_clip_fin)

lemma eps_cell_u_swapped:
  "tau_inv_u (Fin 1) (Fin 0) (Fin 1) (Fin 2) = Fin (- (ln (1 / 10 ^ 6) / 2))"
  by (simp add: tau_inv_u_def log_np_def eps_default_def np_clip_fin)

lemma ge_fin [simp]: "ge (Fin a) (Fin b) = (b \<le> a)"
  by (auto simp: ge_def le_def eq_def)

theorem tau_inv_regimes_witness:
  "tau_inv [Fin 1, Fin 1] (Some [Fin (1 / 2), Fin (1 / 2)]) [Fin 0, Fin 0] (Some [Fin 0, Fin 0])
     [Fin 1, Fin 1] [Fin 1, Fin 2] (Some [Fin 2, Fin 1])
   = Inr [tau_inv_u (Fin 1) (Fin 0) (Fin 1) (Fin 1),
          tau_inv_us (Fin 1) (Fin (1 / 2)) (Fin 0) (Fin 0) (Fin 1) (Fin 2) (Fin 1)]"
proof -
  let ?u = "[Fin 1, Fin 1]" and ?s = "[Fin (1 / 2), Fin (1 / 2)]" and ?z = "[Fin 0, Fin 0]"
  let ?b = "[Fin 1, Fin 2]" and ?g = "[Fin 2, Fin 1]"
  from tau_inv_regimes [of ?u 2 ?s ?z ?z ?u ?b ?g]
  obtain tau where tau: "tau_inv ?u (Some ?s) ?z (Some ?z) ?u ?b (Some ?g) = Inr tau"
    and l: "length tau = 2"
    and c: "\<forall>i<2.
                (ge (?g ! i) (?b ! i)
                 \<and> (is_finite (tau_inv_us (?u ! i) (?s ! i) (?z ! i) (?z ! i) (?u ! i) (?b ! i)
                                (?g ! i))
                    \<or> (\<forall>j<2. ge (?g ! j) (?b ! j)))
                 \<longrightarrow> tau ! i = tau_inv_u (?u ! i) (?z ! i) (?u ! i) (?b ! i))
              \<and> (\<not> ge (?g ! i) (?b ! i)
                 \<and> (is_finite (tau_inv_u (?u ! i) (?z ! i) (?u ! i) (?b ! i))
                    \<or> (\<forall>j<2. \<not> ge (?g ! j) (?b ! j)))
                 \<longrightarrow> tau ! i = tau_inv_us (?u ! i) (?s ! i) (?z ! i) (?z ! i) (?u ! i)
                                (?b ! i) (?g ! i))"
    by auto
  from c [rule_format, of 0] have 0: "tau ! 0 = tau_inv_u (Fin 1) (Fin 0) (Fin 1) (Fin 1)"
    by (simp add: eps_cell_us)
  from c [rule_format, of 1]
  have 1: "tau ! 1 = tau_inv_us (Fin 1) (Fin (1 / 2)) (Fin 0) (Fin 0) (Fin 1) (Fin 2) (Fin 1)"
    by (simp add: eps_cell_u_swapped)
  from l 0 1 have "tau = [tau_inv_u (Fin 1) (Fin 0) (Fin 1) (Fin 1),
          tau_inv_us (Fin 1) (Fin (1 / 2)) (Fin 0) (Fin 0) (Fin 1) (Fin 2) (Fin 1)]"
    by (cases tau; cases "tl tau"; simp)
  with tau show ?thesis by simp
qed

text \<open>
  One cell with \<open>gamma = 2 >= beta = 1\<close>: the result is the value of the unspliced-only
  formula, which differs from the value of the joint formula.
\<close>

theorem tau_inv_regime_counterexample:
  "ge (Fin 2) (Fin 1)
   \<and> tau_inv [Fin 1] (Some [Fin (1 / 2)]) [Fin 0] (Some [Fin 0]) [Fin 1] [Fin 1] (Some [Fin 2])
       = Inr [tau_inv_u (Fin 1) (Fin 0) (Fin 1) (Fin 1)]
   \<and> tau_inv [Fin 1] (Some [Fin (1 / 2)]) [Fin 0] (Some [Fin 0]) [Fin 1] [Fin 1] (Some [Fin 2])
       \<noteq> Inr [tau_inv_us (Fin 1) (Fin (1 / 2)) (Fin 0) (Fin 0) (Fin 1) (Fin 1) (Fin 2)]"
proof -
  have ne: "ln (1 / 10 ^ 6 :: real) \<noteq> 0" by simp
  have r: "tau_inv [Fin 1] (Some [Fin (1 / 2)]) [Fin 0] (Some [Fin 0]) [Fin 1] [Fin 1]
             (Some [Fin 2]) = Inr [tau_inv_u (Fin 1) (Fin 0) (Fin 1) (Fin 1)]"
    by (simp add: tau_inv_def bc_len_def bc_at_def)
  show ?thesis using ne by (simp add: r eps_cell_u eps_cell_us)
qed



section \<open>The divergence evaluator\<close>

lemma lt_irrefl [simp]: "\<not> lt x x"
  by (cases x) simp_all

lemma lt_fin [simp]: "lt (Fin a) (Fin b) = (a < b)"
  by simp

lemma better_fin [simp]: "better (Fin a) (Fin b) = (a < b)"
  by (simp add: better_def)

lemma eq_fin [simp]: "eq (Fin a) (Fin b) = (a = b)"
  by (simp add: eq_def)

lemma gt_fin [simp]: "gt (Fin a) (Fin b) = (b < a)"
  by (simp add: gt_def)

lemma sq_fin [simp]: "sq (Fin a) = Fin (a * a)"
  by (simp add: sq_def)

lemma mRNA_zero:
  "beta \<noteq> 0 \<Longrightarrow> gamma \<noteq> 0 \<Longrightarrow> gamma \<noteq> beta \<Longrightarrow>
   mRNA (Fin 0) (Fin u0) (Fin s0) (Fin alpha) (Fin beta) (Fin gamma) = (Fin u0, Fin s0)"
  by (simp add: mRNA_def inv_np_def)

lemma set_tau_ex: "set_tau (zero_start_args [Fin 0, Fin 5, Fin 0] [Fin 0, Fin 5, Fin 0])
   = Inr ([Fin 0, Fin 0, Fin 0], [Fin 0, Fin 0, Fin 0], Some (Fin 1), Fin 5, Fin 5, True)"
  by (simp add: set_tau_def zero_start_args_def default_args_def)

lemma adjust_increments_zeros2: "adjust_increments [Fin 0, Fin 0] = Inr [Fin 0, Fin 0]"
  by (simp add: adjust_increments_def np_sort_def np_amax_def np_mean_def np_sum_def np_maximum_fin Let_def)

lemma adjust_increments_zeros1: "adjust_increments [Fin 0] = Inr [Fin 0]"
  by (simp add: adjust_increments_def np_sort_def np_amax_def np_mean_def np_sum_def np_maximum_fin Let_def)

lemma adjust_tau_ex: "adjust_tau (zero_start_args [Fin 0, Fin 5, Fin 0] [Fin 0, Fin 5, Fin 0]) (Fin 5) (Fin 5)
    [Fin 0, Fin 0, Fin 0] [Fin 0, Fin 0, Fin 0] = Inr ([Fin 0, Fin 0, Fin 0], [Fin 0, Fin 0, Fin 0])"
  by (simp add: adjust_tau_def zero_start_args_def default_args_def mRNA_arr_def mRNA_zero resid_def sq_sum_def
      argmin_axis0_def np_argmin_def mask_select_def adjust_increments_zeros2 adjust_increments_zeros1 Let_def)


lemma state_dists_ex:
  "state_dists (zero_start_args [Fin 0, Fin 5, Fin 0] [Fin 0, Fin 5, Fin 0]) (Fin 5) (Fin 5)
     [Fin 0, Fin 0, Fin 0] [Fin 0, Fin 0, Fin 0] =
   ([[Fin 50, Fin 0, Fin 50], [Fin 0, Fin 50, Fin 0], [Fin 0, Fin 50, Fin 0],
     [Fin (5 / 4), Fin (145 / 4), Fin (5 / 4)]],
    Fin 1, Fin 1, [Fin 0, Fin 0, Fin 0], [Fin 5, Fin 5, Fin 5], [Fin 0, Fin 0, Fin 0],
    [Fin 5, Fin 5, Fin 5])"
  by (simp add: state_dists_def zero_start_args_def default_args_def mRNA_arr_def mRNA_zero resid_def sq_sum_def Let_def)

lemma compute_divergence_stages:
  assumes "set_tau a = Inr (tau0, tau0', t', u0', s0', own)"
    and "adjust_tau a u0' s0' tau0 tau0' = Inr (tau1, tau1')"
  shows "compute_divergence a mode =
     (let (r, tau, tau') = by_mode a mode t' tau1 tau1' (state_dists a u0' s0' tau1 tau1')
      in if own then (r, Some tau, Some tau') else (r, arg_tau a, arg_tau' a))"
  using assms by (simp add: compute_divergence_def)

lemma by_mode_hard_state:
  "by_mode a ''hard_state'' t' tau tau' (res, varu, vars, ut, ut', st, st')
     = (Inr (States (argmin_axis0 res)), tau, tau')"
  by (simp add: by_mode_def)


lemma by_mode_hard_eval:
  "by_mode a ''hard_eval'' t' tau tau' (res, varu, vars, ut, ut', st, st') =
     (if length (argmin_axis0 res) < 2 then (Inl IndexError, tau, tau')
      else (Inr (HardEval (argmin_axis0 res ! 0) (argmin_axis0 res ! 1)
                   (map2 (+) (map (\<lambda>x. x * Fin (real (argmin_axis0 res ! 1))) ut)
                      (map (\<lambda>x. x * Fin (real (argmin_axis0 res ! 0))) ut'))
                   (map2 (+) (map (\<lambda>x. x * Fin (real (argmin_axis0 res ! 1))) st)
                      (map (\<lambda>x. x * Fin (real (argmin_axis0 res ! 0))) st'))),
            tau, tau'))"
  by (simp add: by_mode_def Let_def)

lemma by_mode_assign_timepoints:
  "by_mode a ''assign_timepoints'' (Some t_sw) tau tau' (res, varu, vars, ut, ut', st, st') =
     (let ov = argmin_axis0 res;
          tauF' = map2 (\<lambda>x k. x * b2f (k = 0)) tau' ov;
          tauF = map2 (\<lambda>x k. x * b2f (k = 1)) tau ov;
          br = map (\<lambda>k. if k = 3 then 0 else k) (map (\<lambda>k. if k = 2 then 1 else k) ov)
      in (Inr (Timepoints
                 (map2 (+) (map2 (\<lambda>x k. x * b2f (k = 1)) tauF br)
                    (map2 (\<lambda>x k. (x + t_sw) * b2f (k = 0)) tauF' br))
                 tauF br),
          tauF, tauF'))"
  by (simp add: by_mode_def Let_def)

text \<open>
  C3. The claim is that \<open>hard_eval\<close> returns for every cell its own best state and
  the modelled (u, s) of that state. Three cells at (0, 0), (5, 5), (0, 0), with the
  induction curve at (0, 0) and the repression curve at (5, 5): the best states are 1, 0,
  1, as \<open>hard_state\<close> returns them. \<open>hard_eval\<close> returns the two numbers
  \<open>o[0] = 1\<close> and \<open>o[1] = 0\<close>, the best states of the first two cells, as the
  weights of all cells, and so the repression value (5, 5) for each cell, also for the two
  cells whose best state is the induction curve.
\<close>

theorem hard_eval_first_two_cells:
  "fst (compute_divergence (zero_start_args [Fin 0, Fin 5, Fin 0] [Fin 0, Fin 5, Fin 0])
          ''hard_eval'')
     = Inr (HardEval 1 0 [Fin 5, Fin 5, Fin 5] [Fin 5, Fin 5, Fin 5])
   \<and> fst (compute_divergence (zero_start_args [Fin 0, Fin 5, Fin 0] [Fin 0, Fin 5, Fin 0])
          ''hard_state'')
     = Inr (States [1, 0, 1])"
  by (simp add: compute_divergence_stages [OF set_tau_ex adjust_tau_ex] state_dists_ex
      by_mode_hard_state by_mode_hard_eval argmin_axis0_def np_argmin_def)


lemma argmin_from_range:
  "argmin_from bi b i xs = bi \<or> (i \<le> argmin_from bi b i xs \<and> argmin_from bi b i xs < i + length xs)"
proof (induction xs arbitrary: bi b i)
  case Nil
  show ?case by simp
next
  case (Cons x xs)
  show ?case
  proof (cases "better x b")
    case True
    with Cons [of i x "Suc i"] show ?thesis by auto
  next
    case False
    with Cons [of bi b "Suc i"] show ?thesis by auto
  qed
qed

lemma np_argmin_less: "xs \<noteq> [] \<Longrightarrow> np_argmin xs < length xs"
proof (cases xs)
  case (Cons x r)
  with argmin_from_range [of 0 x 1 r] show ?thesis by (auto simp: np_argmin_def)
qed simp

lemma length_state_dists:
  "length (fst (state_dists a u0' s0' tau tau')) = (if arg_fit_steady_states a then 4 else 2)"
  by (simp add: state_dists_def Let_def split: prod.splits conn.splits)

lemma argmin_axis0_nth:
  "i < length (hd res) \<Longrightarrow> argmin_axis0 res ! i = np_argmin (map (\<lambda>r. r ! i) res)"
  by (simp add: argmin_axis0_def)

lemma length_argmin_axis0 [simp]: "length (argmin_axis0 res) = length (hd res)"
  by (simp add: argmin_axis0_def)








lemma is_finite_plus: "is_finite x \<Longrightarrow> is_finite y \<Longrightarrow> is_finite (x + y)"
  by (cases x; cases y) simp_all

lemma argmin_axis0_less:
  assumes "res \<noteq> []" "i < length (hd res)"
  shows "argmin_axis0 res ! i < length res"
  using assms np_argmin_less [of "map (\<lambda>r. r ! i) res"] by (simp add: argmin_axis0_nth)

lemma lt_trans: "lt x y \<Longrightarrow> lt y z \<Longrightarrow> lt x z"
  by (cases x; cases y; cases z) simp_all

lemma lt_total: "x \<noteq> NaN \<Longrightarrow> y \<noteq> NaN \<Longrightarrow> lt x y \<or> x = y \<or> lt y x"
  by (cases x; cases y) auto

lemma better_no_nan: "x \<noteq> NaN \<Longrightarrow> b \<noteq> NaN \<Longrightarrow> better x b = lt x b"
  by (simp add: better_def)

lemma argmin_from_first_least:
  assumes "\<forall>x\<in>set (ps @ xs). x \<noteq> NaN"
    and "bi < length ps" and "ps ! bi = b" and "i = length ps"
    and "\<forall>j<length ps. \<not> lt (ps ! j) b" and "\<forall>j<bi. lt b (ps ! j)"
  shows "argmin_from bi b i xs < length (ps @ xs)
       \<and> (\<forall>j<length (ps @ xs). \<not> lt ((ps @ xs) ! j) ((ps @ xs) ! argmin_from bi b i xs))
       \<and> (\<forall>j<argmin_from bi b i xs. lt ((ps @ xs) ! argmin_from bi b i xs) ((ps @ xs) ! j))"
  using assms
proof (induction xs arbitrary: ps bi b i)
  case Nil
  then show ?case by simp
next
  case (Cons x xs)
  have xn: "x \<noteq> NaN" and bn: "b \<noteq> NaN" and psn: "\<forall>y\<in>set ps. y \<noteq> NaN"
    using Cons.prems(1,2,3) by auto
  have app: "ps @ x # xs = (ps @ [x]) @ xs" by simp
  show ?case
  proof (cases "lt x b")
    case True
    have 1: "\<forall>y\<in>set ((ps @ [x]) @ xs). y \<noteq> NaN" using Cons.prems(1) by simp
    have 2: "i < length (ps @ [x])" using Cons.prems(4) by simp
    have 3: "(ps @ [x]) ! i = x" using Cons.prems(4) by simp
    have 4: "Suc i = length (ps @ [x])" using Cons.prems(4) by simp
    have 5: "\<forall>j<length (ps @ [x]). \<not> lt ((ps @ [x]) ! j) x"
    proof (intro allI impI)
      fix j assume j: "j < length (ps @ [x])"
      show "\<not> lt ((ps @ [x]) ! j) x"
      proof (cases "j < length ps")
        case jl: True
        with Cons.prems(5) have "\<not> lt (ps ! j) b" by simp
        with True lt_trans [of "ps ! j" x b] jl show ?thesis by (auto simp: nth_append)
      next
        case False
        with j have "j = length ps" by simp
        then show ?thesis by simp
      qed
    qed
    have 6: "\<forall>j<i. lt x ((ps @ [x]) ! j)"
    proof (intro allI impI)
      fix j assume j: "j < i"
      with Cons.prems(4) have jl: "j < length ps" by simp
      with Cons.prems(5) have nb: "\<not> lt (ps ! j) b" by simp
      from jl psn have "ps ! j \<noteq> NaN" by simp
      from lt_total [OF this bn] nb have "ps ! j = b \<or> lt b (ps ! j)" by auto
      with True lt_trans [of x b "ps ! j"] have "lt x (ps ! j)" by auto
      with jl show "lt x ((ps @ [x]) ! j)" by (simp add: nth_append)
    qed
    from Cons.IH [OF 1 2 3 4 5 6] True xn bn show ?thesis
      by (simp add: better_no_nan app del: append_assoc)
  next
    case False
    have 1: "\<forall>y\<in>set ((ps @ [x]) @ xs). y \<noteq> NaN" using Cons.prems(1) by simp
    have 2: "bi < length (ps @ [x])" using Cons.prems(2) by simp
    have 3: "(ps @ [x]) ! bi = b" using Cons.prems(2,3) by (simp add: nth_append)
    have 4: "Suc i = length (ps @ [x])" using Cons.prems(4) by simp
    have 5: "\<forall>j<length (ps @ [x]). \<not> lt ((ps @ [x]) ! j) b"
      using Cons.prems(5) False by (auto simp: nth_append less_Suc_eq)
    have 6: "\<forall>j<bi. lt b ((ps @ [x]) ! j)"
      using Cons.prems(2,6) by (auto simp: nth_append)
    from Cons.IH [OF 1 2 3 4 5 6] False xn bn show ?thesis
      by (simp add: better_no_nan app del: append_assoc)
  qed
qed

lemma np_argmin_first_least:
  assumes "xs \<noteq> []" and "\<forall>x\<in>set xs. x \<noteq> NaN"
  shows "np_argmin xs < length xs
       \<and> (\<forall>j<length xs. \<not> lt (xs ! j) (xs ! np_argmin xs))
       \<and> (\<forall>j<np_argmin xs. lt (xs ! np_argmin xs) (xs ! j))"
proof -
  from assms(1) obtain x r where xs: "xs = x # r" by (cases xs) auto
  from argmin_from_first_least [of "[x]" r 0 x 1] assms(2)
  show ?thesis by (simp add: xs np_argmin_def)
qed


lemma argmin_axis0_first_least:
  assumes "res \<noteq> []" "i < length (hd res)" "\<forall>k<length res. res ! k ! i \<noteq> NaN"
  shows "argmin_axis0 res ! i < length res
       \<and> (\<forall>k<length res. \<not> lt (res ! k ! i) (res ! (argmin_axis0 res ! i) ! i))
       \<and> (\<forall>k<argmin_axis0 res ! i. lt (res ! (argmin_axis0 res ! i) ! i) (res ! k ! i))"
proof -
  let ?c = "map (\<lambda>r. r ! i) res"
  have ne: "?c \<noteq> []" using assms(1) by simp
  have nn: "\<forall>x\<in>set ?c. x \<noteq> NaN" using assms(3) by (auto simp: in_set_conv_nth)
  let ?m = "np_argmin ?c"
  from np_argmin_first_least [OF ne nn]
  have a0: "?m < length ?c"
    and b: "\<forall>j<length ?c. \<not> lt (?c ! j) (?c ! ?m)"
    and c: "\<forall>j<?m. lt (?c ! ?m) (?c ! j)"
    by blast+
  from a0 have a: "?m < length res" by simp
  then have n: "?c ! ?m = res ! ?m ! i" by (rule nth_map)
  have b': "\<forall>k<length res. \<not> lt (res ! k ! i) (res ! ?m ! i)"
  proof (intro allI impI)
    fix k assume k: "k < length res"
    with b have "\<not> lt (?c ! k) (?c ! ?m)" by simp
    moreover from k have "?c ! k = res ! k ! i" by (rule nth_map)
    ultimately show "\<not> lt (res ! k ! i) (res ! ?m ! i)" using n by simp
  qed
  have c': "\<forall>k<?m. lt (res ! ?m ! i) (res ! k ! i)"
  proof (intro allI impI)
    fix k assume k: "k < ?m"
    with c have "lt (?c ! ?m) (?c ! k)" by simp
    moreover from k a have "?c ! k = res ! k ! i" by (intro nth_map) simp
    ultimately show "lt (res ! ?m ! i) (res ! k ! i)" using n by simp
  qed
  from a b' c' show ?thesis by (simp add: argmin_axis0_nth [OF assms(2)])
qed

text \<open>
  C2. In mode \<open>assign_timepoints\<close>, with \<open>tau1\<close>, \<open>tau1'\<close> the local times after
  the increment adjustment, \<open>res\<close> the distances to the candidate states and \<open>ov\<close>
  their argmin (for a cell without NaN the first state of least distance): the branch of
  a cell is its argmin, where the steady state at the origin (2) becomes the induction
  branch 1 and the steady state at (alpha / beta, alpha / gamma) (3) becomes the
  repression branch 0; the \<open>tau\<close> returned is \<open>tau1\<close> for a cell on the induction
  curve and 0 otherwise; \<open>t = tau\<close> for an induction cell and \<open>t = tau' + t_\<close> for
  a repression cell, \<open>tau'\<close> being \<open>tau1'\<close> on the repression curve and 0 for a
  steady-state match.
\<close>

theorem assign_timepoints_branch_and_time:
  assumes st1: "set_tau a = Inr (tau0, tau0', Some t_sw, u0', s0', own)"
    and st2: "adjust_tau a u0' s0' tau0 tau0' = Inr (tau1, tau1')"
    and res: "res = fst (state_dists a u0' s0' tau1 tau1')"
    and ov: "ov = argmin_axis0 res"
    and len: "length tau1 = length ov" "length tau1' = length ov"
    and fin: "\<forall>x\<in>set tau1. is_finite x" "\<forall>x\<in>set tau1'. is_finite x" "is_finite t_sw"
  shows "\<exists>t tau br. fst (assign_timepoints a) = Inr (Timepoints t tau br)
           \<and> length t = length ov \<and> length tau = length ov \<and> length br = length ov
           \<and> length res = (if arg_fit_steady_states a then 4 else 2)
           \<and> (\<forall>i<length ov.
                 ov ! i < length res
               \<and> ((\<forall>k<length res. res ! k ! i \<noteq> NaN) \<longrightarrow>
                    (\<forall>k<length res. \<not> lt (res ! k ! i) (res ! (ov ! i) ! i))
                    \<and> (\<forall>k<ov ! i. lt (res ! (ov ! i) ! i) (res ! k ! i)))
               \<and> br ! i = (if ov ! i = 2 then 1 else if ov ! i = 3 then 0 else ov ! i)
               \<and> tau ! i = (if ov ! i = 1 then tau1 ! i else Fin 0)
               \<and> (br ! i = 1 \<longrightarrow> t ! i = tau ! i)
               \<and> (br ! i = 0 \<longrightarrow> t ! i = (if ov ! i = 0 then tau1' ! i else Fin 0) + t_sw))"
proof -
  obtain varu vars ut ut' st st'
    where d: "state_dists a u0' s0' tau1 tau1' = (res, varu, vars, ut, ut', st, st')"
    using res by (cases "state_dists a u0' s0' tau1 tau1'") auto
  have lres: "length res = (if arg_fit_steady_states a then 4 else 2)"
    using length_state_dists [of a u0' s0' tau1 tau1'] d by simp
  then have rne: "res \<noteq> []" by (auto split: if_splits)
  let ?tauF' = "map2 (\<lambda>x k. x * b2f (k = 0)) tau1' ov"
  let ?tauF = "map2 (\<lambda>x k. x * b2f (k = 1)) tau1 ov"
  let ?br = "map (\<lambda>k. if k = 3 then 0 else k) (map (\<lambda>k. if k = 2 then 1 else k) ov)"
  let ?t = "map2 (+) (map2 (\<lambda>x k. x * b2f (k = 1)) ?tauF ?br)
              (map2 (\<lambda>x k. (x + t_sw) * b2f (k = 0)) ?tauF' ?br)"
  have r: "fst (assign_timepoints a) = Inr (Timepoints ?t ?tauF ?br)"
    unfolding assign_timepoints_def compute_divergence_stages [OF st1 st2] d
      by_mode_assign_timepoints ov [symmetric]
    by (simp add: Let_def)
  have cell: "ov ! i < length res
               \<and> ((\<forall>k<length res. res ! k ! i \<noteq> NaN) \<longrightarrow>
                    (\<forall>k<length res. \<not> lt (res ! k ! i) (res ! (ov ! i) ! i))
                    \<and> (\<forall>k<ov ! i. lt (res ! (ov ! i) ! i) (res ! k ! i)))
               \<and> ?br ! i = (if ov ! i = 2 then 1 else if ov ! i = 3 then 0 else ov ! i)
               \<and> ?tauF ! i = (if ov ! i = 1 then tau1 ! i else Fin 0)
               \<and> (?br ! i = 1 \<longrightarrow> ?t ! i = ?tauF ! i)
               \<and> (?br ! i = 0 \<longrightarrow> ?t ! i = (if ov ! i = 0 then tau1' ! i else Fin 0) + t_sw)"
    if i: "i < length ov" for i
  proof -
    from i len fin have f1: "is_finite (tau1 ! i)" and f2: "is_finite (tau1' ! i)"
      by simp_all
    from i have ih: "i < length (hd res)" by (simp add: ov)
    from argmin_axis0_less [OF rne ih] have in_range: "ov ! i < length res" by (simp add: ov)
    with lres have lt4: "ov ! i < 4" by (simp split: if_splits)
    have least: "(\<forall>k<length res. res ! k ! i \<noteq> NaN) \<longrightarrow>
                    (\<forall>k<length res. \<not> lt (res ! k ! i) (res ! (ov ! i) ! i))
                    \<and> (\<forall>k<ov ! i. lt (res ! (ov ! i) ! i) (res ! k ! i))"
      using argmin_axis0_first_least [OF rne ih] by (simp add: ov)
    have rest: "?br ! i = (if ov ! i = 2 then 1 else if ov ! i = 3 then 0 else ov ! i)
               \<and> ?tauF ! i = (if ov ! i = 1 then tau1 ! i else Fin 0)
               \<and> (?br ! i = 1 \<longrightarrow> ?t ! i = ?tauF ! i)
               \<and> (?br ! i = 0 \<longrightarrow> ?t ! i = (if ov ! i = 0 then tau1' ! i else Fin 0) + t_sw)"
      using i len f1 f2 fin(3) lt4
      by (auto simp: finite_times_zero is_finite_plus)
    from in_range least rest show ?thesis by blast
  qed
  have "length ?t = length ov" "length ?tauF = length ov" "length ?br = length ov"
    using len by simp_all
  with r cell lres show ?thesis by blast
qed


lemma set_tau_zero_start:
  "set_tau (zero_start_args u s)
     = Inr (map (\<lambda>x. Fin 0) u, map (\<lambda>x. Fin 0) u, Some (Fin 1), Fin 5, Fin 5, True)"
  by (simp add: set_tau_def zero_start_args_def default_args_def)

lemma np_argmin_fin2: "np_argmin [Fin a, Fin b] = (if b < a then 1 else 0)"
  by (simp add: np_argmin_def)

lemma np_argmin_fin4:
  "np_argmin [Fin a, Fin b, Fin c, Fin d] =
     (if b < a then (if c < b then (if d < c then 3 else 2) else (if d < b then 3 else 1))
      else (if c < a then (if d < c then 3 else 2) else (if d < a then 3 else 0)))"
  by (simp add: np_argmin_def)

lemmas eval_stage =
  zero_start_args_def default_args_def mRNA_arr_def mRNA_zero resid_def sq_sum_def
  argmin_axis0_def np_argmin_fin2 np_argmin_fin4 mask_select_def adjust_increments_zeros2
  adjust_increments_zeros1 Let_def atLeastLessThanSuc

lemma adjust_tau_steady:
  "adjust_tau (zero_start_args [Fin 1] [Fin (1 / 2)]) (Fin 5) (Fin 5) [Fin 0] [Fin 0]
     = Inr ([Fin 0], [Fin 0])"
  by (simp add: adjust_tau_def eval_stage)

lemma state_dists_steady:
  "state_dists (zero_start_args [Fin 1] [Fin (1 / 2)]) (Fin 5) (Fin 5) [Fin 0] [Fin 0]
     = ([[Fin (145 / 4)], [Fin (5 / 4)], [Fin (5 / 4)], [Fin 0]],
        Fin 1, Fin 1, [Fin 0], [Fin 5], [Fin 0], [Fin 5])"
  by (simp add: state_dists_def eval_stage)

text \<open>
  One cell at the induction steady state (alpha / beta, alpha / gamma) = (1, 1/2): its
  argmin is 3, and its branch is 0, the repression branch, at time \<open>t_\<close>.
\<close>

theorem assign_timepoints_steady_counterexample:
  "argmin_axis0 (fst (state_dists (zero_start_args [Fin 1] [Fin (1 / 2)]) (Fin 5) (Fin 5)
                        [Fin 0] [Fin 0])) = [3]
   \<and> fst (assign_timepoints (zero_start_args [Fin 1] [Fin (1 / 2)]))
       = Inr (Timepoints [Fin 1] [Fin 0] [0])"
  using set_tau_zero_start [of "[Fin 1]" "[Fin (1 / 2)]"]
  by (simp add: assign_timepoints_def compute_divergence_def adjust_tau_steady
      state_dists_steady by_mode_assign_timepoints argmin_axis0_def np_argmin_def Let_def)

lemma adjust_tau_three:
  "adjust_tau (zero_start_args [Fin 0, Fin 5, Fin 1] [Fin 0, Fin 5, Fin (1 / 2)]) (Fin 5) (Fin 5)
     [Fin 0, Fin 0, Fin 0] [Fin 0, Fin 0, Fin 0] = Inr ([Fin 0, Fin 0, Fin 0], [Fin 0, Fin 0, Fin 0])"
  by (simp add: adjust_tau_def eval_stage)

lemma state_dists_three:
  "state_dists (zero_start_args [Fin 0, Fin 5, Fin 1] [Fin 0, Fin 5, Fin (1 / 2)]) (Fin 5) (Fin 5)
     [Fin 0, Fin 0, Fin 0] [Fin 0, Fin 0, Fin 0]
     = ([[Fin 50, Fin 0, Fin (145 / 4)], [Fin 0, Fin 50, Fin (5 / 4)],
         [Fin 0, Fin 50, Fin (5 / 4)], [Fin (5 / 4), Fin (145 / 4), Fin 0]],
        Fin 1, Fin 1, [Fin 0, Fin 0, Fin 0], [Fin 5, Fin 5, Fin 5], [Fin 0, Fin 0, Fin 0],
        [Fin 5, Fin 5, Fin 5])"
  by (simp add: state_dists_def eval_stage)

theorem assign_timepoints_branch_and_time_witness:
  "\<exists>t tau br. fst (assign_timepoints
                     (zero_start_args [Fin 0, Fin 5, Fin 1] [Fin 0, Fin 5, Fin (1 / 2)]))
                 = Inr (Timepoints t tau br)
     \<and> length t = 3 \<and> length tau = 3 \<and> length br = 3
     \<and> br ! 0 = 1 \<and> t ! 0 = Fin 0 \<and> tau ! 0 = Fin 0
     \<and> br ! 1 = 0 \<and> t ! 1 = Fin 1 \<and> tau ! 1 = Fin 0
     \<and> br ! 2 = 0 \<and> t ! 2 = Fin 1 \<and> tau ! 2 = Fin 0"
proof -
  let ?a = "zero_start_args [Fin 0, Fin 5, Fin 1] [Fin 0, Fin 5, Fin (1 / 2)]"
  let ?z = "[Fin 0, Fin 0, Fin 0]"
  let ?res = "[[Fin 50, Fin 0, Fin (145 / 4)], [Fin 0, Fin 50, Fin (5 / 4)],
               [Fin 0, Fin 50, Fin (5 / 4)], [Fin (5 / 4), Fin (145 / 4), Fin 0]]"
  have h1: "set_tau ?a = Inr (?z, ?z, Some (Fin 1), Fin 5, Fin 5, True)"
    using set_tau_zero_start [of "[Fin 0, Fin 5, Fin 1]" "[Fin 0, Fin 5, Fin (1 / 2)]"] by simp
  have h2: "?res = fst (state_dists ?a (Fin 5) (Fin 5) ?z ?z)"
    by (simp add: state_dists_three)
  have h3: "[1, 0, 3] = argmin_axis0 ?res"
    by (simp add: argmin_axis0_def np_argmin_fin4)
  have h4: "length ?z = length [1, 0, 3 :: nat]" by simp
  have h5: "\<forall>x\<in>set ?z. is_finite x" by simp
  have h6: "is_finite (Fin 1)" by simp
  let ?ov = "[1, 0, 3 :: nat]"
  from assign_timepoints_branch_and_time [OF h1 adjust_tau_three h2 h3 h4 h4 h5 h5 h6]
  obtain t tau br where r: "fst (assign_timepoints ?a) = Inr (Timepoints t tau br)"
    and l: "length t = length ?ov" "length tau = length ?ov" "length br = length ?ov"
    and c: "\<forall>i<length ?ov.
                 ?ov ! i < length ?res
               \<and> ((\<forall>k<length ?res. ?res ! k ! i \<noteq> NaN) \<longrightarrow>
                    (\<forall>k<length ?res. \<not> lt (?res ! k ! i) (?res ! (?ov ! i) ! i))
                    \<and> (\<forall>k<?ov ! i. lt (?res ! (?ov ! i) ! i) (?res ! k ! i)))
               \<and> br ! i = (if ?ov ! i = 2 then 1 else if ?ov ! i = 3 then 0 else ?ov ! i)
               \<and> tau ! i = (if ?ov ! i = 1 then ?z ! i else Fin 0)
               \<and> (br ! i = 1 \<longrightarrow> t ! i = tau ! i)
               \<and> (br ! i = 0 \<longrightarrow> t ! i = (if ?ov ! i = 0 then ?z ! i else Fin 0) + Fin 1)"
    by blast
  have c0: "br ! 0 = 1 \<and> tau ! 0 = Fin 0 \<and> t ! 0 = Fin 0"
    using c [rule_format, of 0] by simp
  have c1: "br ! 1 = 0 \<and> tau ! 1 = Fin 0 \<and> t ! 1 = Fin 1"
    using c [rule_format, of 1] by simp
  have c2: "br ! 2 = 0 \<and> tau ! 2 = Fin 0 \<and> t ! 2 = Fin 1"
    using c [rule_format, of 2] by simp
  from r l c0 c1 c2 show ?thesis by simp
qed










section \<open>The caller's arrays\<close>

lemma length_adjust_fold:
  "length (foldl (\<lambda>tau_new i. map (f tau_new i) [0..<length tau_new]) tau_new idx)
     = length tau_new"
  by (induction idx arbitrary: tau_new) simp_all

lemma adjust_increments_total:
  assumes "xs \<noteq> []"
  shows "\<exists>v. adjust_increments xs = Inr v \<and> length v = length xs"
proof -
  from assms obtain x r where xs: "xs = x # r" by (cases xs) auto
  then have mx: "np_amax xs = Inr (foldl np_maximum x r)" by (simp add: np_amax_def)
  show ?thesis
    unfolding adjust_increments_def Let_def mx sum.case
    using length_adjust_fold
      [of "\<lambda>tau_new i j. if ge (xs ! j) (np_sort (map (\<lambda>x. x * Fin 1) xs) ! i)
                          then tau_new ! j - np_diff (Fin 0) (np_sort (map (\<lambda>x. x * Fin 1) xs)) ! i
                          else tau_new ! j"
          "map (\<lambda>x. x * Fin 1) xs"]
    by simp
qed

lemma mask_select_nonempty:
  "True \<in> set m \<Longrightarrow> length m \<le> length xs \<Longrightarrow> mask_select m xs \<noteq> []"
proof (induction m arbitrary: xs)
  case Nil
  then show ?case by simp
next
  case (Cons b m)
  then obtain x r where xs: "xs = x # r" by (cases xs) auto
  show ?case
  proof (cases b)
    case True
    then show ?thesis by (simp add: xs mask_select_def)
  next
    case False
    with Cons have "mask_select m r \<noteq> []" by (auto simp: xs)
    then show ?thesis using False by (simp add: xs mask_select_def)
  qed
qed

lemma length_mask_assign [simp]: "length (mask_assign m xs vs) = length xs"
  by (induction m xs vs rule: mask_assign.induct) simp_all

lemma length_resid: "length (resid x xt sd) = min (length x) (length xt)"
  by (simp add: resid_def)

lemma length_sq_sum: "length (sq_sum a b) = min (length a) (length b)"
  by (simp add: sq_sum_def)

lemma adjust_step_total:
  assumes "length m \<le> length tau"
  shows "\<exists>tau1. (if True \<in> set m
                 then (case adjust_increments (mask_select m tau) of
                         Inl e \<Rightarrow> Inl e
                       | Inr v \<Rightarrow> Inr (mask_assign m tau v))
                 else Inr tau) = Inr tau1 \<and> length tau1 = length tau"
proof (cases "True \<in> set m")
  case True
  from adjust_increments_total [OF mask_select_nonempty [OF True assms]]
  obtain v where "adjust_increments (mask_select m tau) = Inr v" by blast
  with True show ?thesis by simp
next
  case False
  then show ?thesis by simp
qed

lemma adjust_tau_total:
  assumes "length tau = length tau'"
  shows "\<exists>tau1 tau1'. adjust_tau a u0' s0' tau tau' = Inr (tau1, tau1')
           \<and> length tau1 = length tau \<and> length tau1' = length tau'
           \<and> (\<not> arg_constraint_time_increments a \<longrightarrow> tau1 = tau \<and> tau1' = tau')"
proof (cases "arg_constraint_time_increments a")
  case False
  then show ?thesis by (simp add: adjust_tau_def)
next
  case True
  let ?std_u = "std_value (arg_std_u a) / arg_scaling a"
  let ?ut = "fst (mRNA_arr tau (Fin 0) (Fin 0) (arg_alpha a) (arg_beta a) (arg_gamma a))"
  let ?st = "snd (mRNA_arr tau (Fin 0) (Fin 0) (arg_alpha a) (arg_beta a) (arg_gamma a))"
  let ?ut' = "fst (mRNA_arr tau' u0' s0' (Fin 0) (arg_beta a) (arg_gamma a))"
  let ?st' = "snd (mRNA_arr tau' u0' s0' (Fin 0) (arg_beta a) (arg_gamma a))"
  let ?ov = "argmin_axis0
               [sq_sum (resid (arg_u a) ?ut' ?std_u) (resid (arg_s a) ?st' (arg_std_s a)),
                sq_sum (resid (arg_u a) ?ut ?std_u) (resid (arg_s a) ?st (arg_std_s a))]"
  have lov: "length ?ov \<le> length tau'"
    by (simp add: length_sq_sum length_resid mRNA_arr_def)
  let ?on = "map (\<lambda>k. k = 1) ?ov" and ?off = "map (\<lambda>k. k = 0) ?ov"
  from adjust_step_total [of ?on tau] lov assms
  obtain tau1 where t1: "(if True \<in> set ?on
                 then (case adjust_increments (mask_select ?on tau) of
                         Inl e \<Rightarrow> Inl e
                       | Inr v \<Rightarrow> Inr (mask_assign ?on tau v))
                 else Inr tau) = Inr tau1" and l1: "length tau1 = length tau"
    by auto
  from adjust_step_total [of ?off tau'] lov
  obtain tau1' where t1': "(if True \<in> set ?off
                 then (case adjust_increments (mask_select ?off tau') of
                         Inl e \<Rightarrow> Inl e
                       | Inr v \<Rightarrow> Inr (mask_assign ?off tau' v))
                 else Inr tau') = Inr tau1'" and l1': "length tau1' = length tau'"
    by auto
  have "adjust_tau a u0' s0' tau tau' = Inr (tau1, tau1')"
    unfolding adjust_tau_def Let_def using True
    by (simp only: if_True split_beta t1 t1' sum.case)
  with l1 l1' True show ?thesis by simp
qed



lemma set_tau_fresh:
  assumes "arg_tau a = None \<or> arg_tau' a = None \<or> arg_t' a = None"
    and "set_tau a = Inr (tau0, tau0', t', u0', s0', own)"
  shows "\<not> own"
  using assms by (auto simp: set_tau_def split: option.splits prod.splits sum.splits)

lemma compute_divergence_fresh:
  assumes "arg_tau a = None \<or> arg_tau' a = None \<or> arg_t' a = None"
  shows "snd (compute_divergence a mode) = (arg_tau a, arg_tau' a)"
proof (cases "set_tau a")
  case (Inl e)
  then show ?thesis by (simp add: compute_divergence_def)
next
  case (Inr p)
  then obtain tau0 tau0' t' u0' s0' own
    where p: "set_tau a = Inr (tau0, tau0', t', u0', s0', own)" by (cases p) auto
  from set_tau_fresh [OF assms p] have own: "\<not> own" .
  show ?thesis
  proof (cases "adjust_tau a u0' s0' tau0 tau0'")
    case (Inl e)
    with p show ?thesis by (simp add: compute_divergence_def)
  next
    case (Inr q)
    with p own show ?thesis by (cases q) (simp add: compute_divergence_def split_beta)
  qed
qed








lemma divide_one [simp]: "x / Fin 1 = (x :: npf)"
  by (cases x) simp_all

lemma std_u_after_unchanged:
  assumes "(\<exists>x. arg_std_u a = Number x) \<or> arg_scaling a = Fin 1"
  shows "std_u_after a = arg_std_u a"
  using assms by (auto simp: std_u_after_def split: sum.splits std.splits)

lemma set_tau_switch_time:
  assumes "set_tau a = Inr (tau0, tau0', t', u0', s0', own)"
  shows "t' = arg_t' a"
  using assms
  by (auto simp: set_tau_def assign_tau_def Let_def split: option.splits prod.splits sum.splits if_splits)

lemma by_mode_no_switch_time:
  "\<exists>e. fst (by_mode a ''assign_timepoints'' None tau tau' d) = Inl e"
  by (cases d) (simp add: by_mode_def Let_def split_beta)

lemma assign_timepoints_no_switch_time:
  assumes "arg_t' a = None"
  shows "\<exists>e. fst (assign_timepoints a) = Inl e"
proof (cases "set_tau a")
  case (Inl e)
  then show ?thesis by (simp add: assign_timepoints_def compute_divergence_def)
next
  case (Inr p)
  then obtain tau0 tau0' t' u0' s0' own
    where p: "set_tau a = Inr (tau0, tau0', t', u0', s0', own)" by (cases p) auto
  from set_tau_switch_time [OF p] assms have t': "t' = None" by simp
  show ?thesis
  proof (cases "adjust_tau a u0' s0' tau0 tau0'")
    case (Inl e)
    with p show ?thesis by (simp add: assign_timepoints_def compute_divergence_def)
  next
    case (Inr q)
    then obtain tau1 tau1' where q: "adjust_tau a u0' s0' tau0 tau0' = Inr (tau1, tau1')"
      by (cases q) auto
    from by_mode_no_switch_time [of a tau1 tau1' "state_dists a u0' s0' tau1 tau1'"]
    show ?thesis
      by (auto simp: assign_timepoints_def compute_divergence_stages [OF p q] t' split_beta)
  qed
qed

lemma tau_inv_cells_total:
  assumes "length u = length s"
  shows "\<exists>tau. tau_inv u (Some s) [u0] (Some [s0]) [alpha] [beta] (Some [gamma]) = Inr tau
         \<and> length tau = length u"
  using assms by (simp add: tau_inv_def Let_def bc_len_def)

lemma assign_tau_total:
  assumes "assignment_mode \<noteq> Some ''projection''" and "length u = length s"
    and "\<exists>x\<in>set s. gt x (Fin 0)"
  shows "\<exists>tau tau'. assign_tau u s alpha beta gamma t' u0' s0' assignment_mode = Inr (tau, tau', t')
           \<and> length tau = length u \<and> length tau' = length u"
proof -
  from tau_inv_cells_total [OF assms(2), of "Fin 0" "Fin 0" alpha beta gamma] obtain tau
    where 1: "tau_inv u (Some s) [Fin 0] (Some [Fin 0]) [alpha] [beta] (Some [gamma]) = Inr tau"
      and l1: "length tau = length u" by blast
  from tau_inv_cells_total [OF assms(2), of u0' s0' "Fin 0" beta gamma] obtain tau'
    where 2: "tau_inv u (Some s) [u0'] (Some [s0']) [Fin 0] [beta] (Some [gamma]) = Inr tau'"
      and l2: "length tau' = length u" by blast
  from assms(3) have "True \<in> set (map (\<lambda>x. gt x (Fin 0)) s)" by auto
  from mask_select_nonempty [OF this, of tau'] l2 assms(2)
  have "mask_select (map (\<lambda>x. gt x (Fin 0)) s) tau' \<noteq> []" by simp
  then obtain mx where 3: "np_amax (mask_select (map (\<lambda>x. gt x (Fin 0)) s) tau') = Inr mx"
    by (cases "mask_select (map (\<lambda>x. gt x (Fin 0)) s) tau'") (auto simp: np_amax_def)
  show ?thesis
    using assms(1) l1 l2 by (cases t') (simp_all add: assign_tau_def 1 2 3 Let_def)
qed

lemma set_tau_total:
  assumes "arg_t' a = Some t_sw" and "arg_tau a = None \<or> arg_tau' a = None"
    and "arg_assignment_mode a \<noteq> Some ''projection''"
    and "length (arg_u a) = length (arg_s a)" and "\<exists>x\<in>set (arg_s a). gt x (Fin 0)"
  shows "\<exists>tau tau' u0' s0'. set_tau a = Inr (tau, tau', Some t_sw, u0', s0', False)
           \<and> length tau = length tau'"
proof -
  have "\<exists>p. (case (arg_u0' a, arg_s0' a) of
              (Some u0, Some s0) \<Rightarrow> Inr (u0, s0)
            | _ \<Rightarrow> (case arg_t' a of
                      None \<Rightarrow> Inl TypeError
                    | Some t_sw \<Rightarrow> Inr (mRNA t_sw (Fin 0) (Fin 0) (arg_alpha a) (arg_beta a)
                                          (arg_gamma a)))) = Inr p"
    using assms(1) by (simp split: option.splits)
  then obtain p where "(case (arg_u0' a, arg_s0' a) of
              (Some u0, Some s0) \<Rightarrow> Inr (u0, s0)
            | _ \<Rightarrow> (case arg_t' a of
                      None \<Rightarrow> Inl TypeError
                    | Some t_sw \<Rightarrow> Inr (mRNA t_sw (Fin 0) (Fin 0) (arg_alpha a) (arg_beta a)
                                          (arg_gamma a)))) = Inr p" by blast
  then obtain u0' s0' where u0: "(case (arg_u0' a, arg_s0' a) of
              (Some u0, Some s0) \<Rightarrow> Inr (u0, s0)
            | _ \<Rightarrow> (case arg_t' a of
                      None \<Rightarrow> Inl TypeError
                    | Some t_sw \<Rightarrow> Inr (mRNA t_sw (Fin 0) (Fin 0) (arg_alpha a) (arg_beta a)
                                          (arg_gamma a)))) = Inr (u0', s0')"
    by (cases p) simp
  from assign_tau_total [OF assms(3,4,5), of "arg_alpha a" "arg_beta a" "arg_gamma a" "arg_t' a" u0' s0']
  obtain tau tau' where at: "assign_tau (arg_u a) (arg_s a) (arg_alpha a) (arg_beta a) (arg_gamma a)
                            (arg_t' a) u0' s0' (arg_assignment_mode a) = Inr (tau, tau', arg_t' a)"
    and l: "length tau = length tau'" by auto
  have "set_tau a = Inr (tau, tau', Some t_sw, u0', s0', False)"
    unfolding set_tau_def u0 using assms(1,2) at by (auto split: option.splits)
  with l show ?thesis by blast
qed

lemma assign_timepoints_total:
  assumes "arg_t' a = Some t_sw" and "arg_tau a = None \<or> arg_tau' a = None"
    and "arg_assignment_mode a \<noteq> Some ''projection''"
    and "length (arg_u a) = length (arg_s a)" and "\<exists>x\<in>set (arg_s a). gt x (Fin 0)"
  shows "\<exists>t tau br. fst (assign_timepoints a) = Inr (Timepoints t tau br)"
proof -
  from set_tau_total [OF assms] obtain tau0 tau0' u0' s0'
    where p: "set_tau a = Inr (tau0, tau0', Some t_sw, u0', s0', False)"
      and l: "length tau0 = length tau0'" by blast
  from adjust_tau_total [OF l, of a u0' s0'] obtain tau1 tau1'
    where q: "adjust_tau a u0' s0' tau0 tau0' = Inr (tau1, tau1')" by blast
  show ?thesis
    by (cases "state_dists a u0' s0' tau1 tau1'")
       (simp add: assign_timepoints_def compute_divergence_stages [OF p q]
          by_mode_assign_timepoints Let_def)
qed

lemma exp_minus_ln2 [simp]: "exp (- ln 2) = (1 / 2 :: real)"
  by (simp add: exp_minus)

lemma exp_minus_2ln2 [simp]: "exp (- (2 * ln 2)) = (1 / 4 :: real)"
proof -
  have "exp (2 * ln 2) = (exp (ln 2 :: real))\<^sup>2" by (simp add: exp_double)
  then have "exp (2 * ln 2) = (4 :: real)" by simp
  then show ?thesis by (simp add: exp_minus)
qed

lemma mRNA_induction_ln2:
  "mRNA (Fin (ln 2)) (Fin 0) (Fin 0) (Fin 1) (Fin 1) (Fin 2) = (Fin (1 / 2), Fin (1 / 8))"
  by (simp add: mRNA_def inv_np_def)

lemma mRNA_repression_ln2:
  "mRNA (Fin (ln 2)) (Fin (1 / 2)) (Fin (1 / 8)) (Fin 0) (Fin 1) (Fin 2)
     = (Fin (1 / 4), Fin (5 / 32))"
  by (simp add: mRNA_def inv_np_def)

lemma adjust_increments_ln2: "adjust_increments [Fin (ln 2)] = Inr [Fin (ln 2)]"
  by (simp add: adjust_increments_def np_sort_def np_amax_def np_mean_def np_sum_def
      np_maximum_fin Let_def gt_def)

lemmas eval_switch =
  switch_point_args_def default_args_def mRNA_arr_def mRNA_zero mRNA_induction_ln2
  mRNA_repression_ln2 resid_def sq_sum_def argmin_axis0_def np_argmin_fin2 np_argmin_fin4
  mask_select_def adjust_increments_ln2 adjust_increments_zeros1 Let_def atLeastLessThanSuc

lemma first_call:
  "assign_timepoints switch_point_args
     = (Inr (Timepoints [Fin (ln 2)] [Fin (ln 2)] [1]), Some [Fin (ln 2)], Some [Fin 0])"
proof -
  have st1: "set_tau switch_point_args
               = Inr ([Fin (ln 2)], [Fin (ln 2)], Some (Fin (ln 2)), Fin (1 / 2), Fin (1 / 8), True)"
    by (simp add: set_tau_def switch_point_args_def default_args_def mRNA_induction_ln2)
  have st2: "adjust_tau switch_point_args (Fin (1 / 2)) (Fin (1 / 8)) [Fin (ln 2)] [Fin (ln 2)]
               = Inr ([Fin (ln 2)], [Fin (ln 2)])"
    by (simp add: adjust_tau_def eval_switch)
  have st3: "state_dists switch_point_args (Fin (1 / 2)) (Fin (1 / 8)) [Fin (ln 2)] [Fin (ln 2)]
               = ([[Fin (65 / 1024)], [Fin 0], [Fin (17 / 64)], [Fin (25 / 64)]],
                  Fin 1, Fin 1, [Fin (1 / 2)], [Fin (1 / 4)], [Fin (1 / 8)], [Fin (5 / 32)])"
    by (simp add: state_dists_def eval_switch)
  show ?thesis
    by (simp add: assign_timepoints_def compute_divergence_stages [OF st1 st2] st3
        by_mode_assign_timepoints argmin_axis0_def np_argmin_fin4 Let_def)
qed

lemma second_call:
  "assign_timepoints (switch_point_args\<lparr>arg_tau := Some [Fin (ln 2)], arg_tau' := Some [Fin 0],
                                          arg_std_u := Number (Fin 1)\<rparr>)
     = (Inr (Timepoints [Fin (ln 2)] [Fin 0] [0]), Some [Fin 0], Some [Fin 0])"
proof -
  let ?a = "switch_point_args\<lparr>arg_tau := Some [Fin (ln 2)], arg_tau' := Some [Fin 0],
                                arg_std_u := Number (Fin 1)\<rparr>"
  have st1: "set_tau ?a
               = Inr ([Fin (ln 2)], [Fin 0], Some (Fin (ln 2)), Fin (1 / 2), Fin (1 / 8), True)"
    by (simp add: set_tau_def switch_point_args_def default_args_def mRNA_induction_ln2)
  have st2: "adjust_tau ?a (Fin (1 / 2)) (Fin (1 / 8)) [Fin (ln 2)] [Fin 0]
               = Inr ([Fin (ln 2)], [Fin 0])"
    by (simp add: adjust_tau_def eval_switch)
  have st3: "state_dists ?a (Fin (1 / 2)) (Fin (1 / 8)) [Fin (ln 2)] [Fin 0]
               = ([[Fin 0], [Fin 0], [Fin (17 / 64)], [Fin (25 / 64)]],
                  Fin 1, Fin 1, [Fin (1 / 2)], [Fin (1 / 2)], [Fin (1 / 8)], [Fin (1 / 8)])"
    by (simp add: state_dists_def eval_switch)
  show ?thesis
    by (simp add: assign_timepoints_def compute_divergence_stages [OF st1 st2] st3
        by_mode_assign_timepoints argmin_axis0_def np_argmin_fin4 Let_def)
qed

lemma tau_inv_u_quarter:
  "tau_inv_u (Fin (1 / 4)) (Fin 0) (Fin 1) (Fin 1) = Fin (- ln (3 / 4))"
  by (simp add: tau_inv_u_def log_np_def eps_default_def np_clip_fin)

lemma tau_inv_u_quarter':
  "tau_inv_u (Fin (1 / 4)) (Fin (1 / 2)) (Fin 0) (Fin 1) = Fin (ln 2)"
  by (simp add: tau_inv_u_def log_np_def eps_default_def np_clip_fin ln_div)

lemma ln_three_quarters: "- ln (3 / 4 :: real) \<le> ln 2" "0 \<le> - ln (3 / 4 :: real)"
proof -
  have "- ln (3 / 4 :: real) = ln (4 / 3)" by (simp add: ln_div)
  also have "\<dots> \<le> ln 2" by simp
  finally show "- ln (3 / 4 :: real) \<le> ln 2" .
  show "0 \<le> - ln (3 / 4 :: real)" by simp
qed

lemma assign_tau_curve_cells:
  "assign_tau [Fin (1 / 4), Fin (1 / 4)] [Fin (1 / 32), Fin (5 / 32)] (Fin 1) (Fin 1) (Fin 2)
     (Some (Fin (ln 2))) (Fin (1 / 2)) (Fin (1 / 8)) None
   = Inr ([Fin (- ln (3 / 4)), Fin (- ln (3 / 4))], [Fin (ln 2), Fin (ln 2)], Some (Fin (ln 2)))"
  by (simp add: assign_tau_def tau_inv_def bc_len_def bc_at_def ge_def le_def eq_def
      tau_inv_u_quarter tau_inv_u_quarter' np_clip_fin ln_three_quarters mask_select_def gt_def
      np_amax_def np_maximum_fin atLeastLessThanSuc Let_def)

lemma exp_2ln34 [simp]: "exp (2 * ln (3 / 4)) = (9 / 16 :: real)"
proof -
  have "exp (2 * ln (3 / 4)) = (exp (ln (3 / 4) :: real))\<^sup>2" by (simp add: exp_double)
  then show ?thesis by (simp add: power2_eq_square)
qed

lemma mRNA_induction_ln43:
  "mRNA (Fin (- ln (3 / 4))) (Fin 0) (Fin 0) (Fin 1) (Fin 1) (Fin 2) = (Fin (1 / 4), Fin (1 / 32))"
  by (simp add: mRNA_def inv_np_def)

lemma adjust_increments_one:
  "0 \<le> x \<Longrightarrow> adjust_increments [Fin x] = Inr [Fin x]"
  by (simp add: adjust_increments_def np_sort_def np_amax_def np_mean_def np_sum_def
      np_maximum_fin Let_def gt_def)

lemma set_tau_curve_cells:
  "set_tau curve_cells_args
     = Inr ([Fin (- ln (3 / 4)), Fin (- ln (3 / 4))], [Fin (ln 2), Fin (ln 2)], Some (Fin (ln 2)),
            Fin (1 / 2), Fin (1 / 8), False)"
  by (simp add: set_tau_def curve_cells_args_def default_args_def mRNA_induction_ln2
      assign_tau_curve_cells)

lemmas eval_curve =
  curve_cells_args_def default_args_def mRNA_arr_def mRNA_induction_ln43
  mRNA_repression_ln2 resid_def sq_sum_def argmin_axis0_def np_argmin_fin2 np_argmin_fin4
  mask_select_def adjust_increments_ln2 adjust_increments_one ln_three_quarters Let_def
  atLeastLessThanSuc

lemma adjust_tau_curve_cells:
  "adjust_tau curve_cells_args (Fin (1 / 2)) (Fin (1 / 8))
     [Fin (- ln (3 / 4)), Fin (- ln (3 / 4))] [Fin (ln 2), Fin (ln 2)]
   = Inr ([Fin (- ln (3 / 4)), Fin (- ln (3 / 4))], [Fin (ln 2), Fin (ln 2)])"
  by (simp add: adjust_tau_def eval_curve)

lemma state_dists_curve_cells:
  "state_dists curve_cells_args (Fin (1 / 2)) (Fin (1 / 8))
     [Fin (- ln (3 / 4)), Fin (- ln (3 / 4))] [Fin (ln 2), Fin (ln 2)]
   = ([[Fin (1 / 64), Fin 0], [Fin 0, Fin (1 / 64)], [Fin (65 / 1024), Fin (89 / 1024)],
       [Fin (801 / 1024), Fin (697 / 1024)]],
      Fin 1, Fin 1, [Fin (1 / 4), Fin (1 / 4)], [Fin (1 / 4), Fin (1 / 4)],
      [Fin (1 / 32), Fin (1 / 32)], [Fin (5 / 32), Fin (5 / 32)])"
  by (simp add: state_dists_def eval_curve)

lemma assign_timepoints_curve_cells:
  "assign_timepoints curve_cells_args
     = (Inr (Timepoints [Fin (- ln (3 / 4)), Fin (2 * ln 2)] [Fin (- ln (3 / 4)), Fin 0] [1, 0]),
        None, None)"
proof -
  have "arg_tau curve_cells_args = None" "arg_tau' curve_cells_args = None"
    by (simp_all add: curve_cells_args_def default_args_def)
  then show ?thesis
    by (simp add: assign_timepoints_def
        compute_divergence_stages [OF set_tau_curve_cells adjust_tau_curve_cells]
        state_dists_curve_cells by_mode_assign_timepoints argmin_axis0_def np_argmin_fin4 Let_def)
qed

lemma assign_tau_scaled_std:
  "assign_tau [Fin (1 / 4)] [Fin 1] (Fin 1) (Fin 1) (Fin 2)
     (Some (Fin (ln 2))) (Fin (1 / 2)) (Fin (1 / 8)) None
   = Inr ([Fin (- ln (3 / 4))], [Fin (ln 2)], Some (Fin (ln 2)))"
  by (simp add: assign_tau_def tau_inv_def bc_len_def bc_at_def ge_def le_def eq_def
      tau_inv_u_quarter tau_inv_u_quarter' np_clip_fin ln_three_quarters mask_select_def gt_def
      np_amax_def np_maximum_fin atLeastLessThanSuc Let_def)

lemmas eval_scaled =
  scaled_std_args_def default_args_def mRNA_arr_def mRNA_induction_ln43
  mRNA_repression_ln2 resid_def sq_sum_def argmin_axis0_def np_argmin_fin2 np_argmin_fin4
  mask_select_def adjust_increments_ln2 adjust_increments_one ln_three_quarters Let_def
  atLeastLessThanSuc

lemma std_u_after_scaled_std: "std_u_after scaled_std_args = Ndarray (Fin 2)"
  by (simp add: std_u_after_def set_tau_def scaled_std_args_def default_args_def
      mRNA_induction_ln2 assign_tau_scaled_std)

lemma first_call_scaled_std:
  "assign_timepoints scaled_std_args = (Inr (Timepoints [Fin (ln 2)] [Fin 0] [0]), None, None)"
proof -
  have st1: "set_tau scaled_std_args
               = Inr ([Fin (- ln (3 / 4))], [Fin (ln 2)], Some (Fin (ln 2)), Fin (1 / 2),
                      Fin (1 / 8), False)"
    by (simp add: set_tau_def scaled_std_args_def default_args_def mRNA_induction_ln2
        assign_tau_scaled_std)
  have st2: "adjust_tau scaled_std_args (Fin (1 / 2)) (Fin (1 / 8)) [Fin (- ln (3 / 4))] [Fin (ln 2)]
               = Inr ([Fin (- ln (3 / 4))], [Fin (ln 2)])"
    by (simp add: adjust_tau_def eval_scaled)
  have st3: "state_dists scaled_std_args (Fin (1 / 2)) (Fin (1 / 8)) [Fin (- ln (3 / 4))] [Fin (ln 2)]
               = ([[Fin (729 / 1024)], [Fin (961 / 1024)], [Fin (65 / 64)], [Fin (25 / 64)]],
                  Fin 1, Fin 1, [Fin (1 / 4)], [Fin (1 / 4)], [Fin (1 / 32)], [Fin (5 / 32)])"
    by (simp add: state_dists_def eval_scaled)
  have args: "arg_tau scaled_std_args = None" "arg_tau' scaled_std_args = None"
    by (simp_all add: scaled_std_args_def default_args_def)
  show ?thesis
    by (simp add: assign_timepoints_def compute_divergence_stages [OF st1 st2] st3 args
        by_mode_assign_timepoints argmin_axis0_def np_argmin_fin4 Let_def)
qed

lemma second_call_scaled_std:
  "assign_timepoints (scaled_std_args\<lparr>arg_tau := None, arg_tau' := None,
                                       arg_std_u := Ndarray (Fin 2)\<rparr>)
     = (Inr (Timepoints [Fin (2 * ln 2)] [Fin 0] [0]), None, None)"
proof -
  let ?a = "scaled_std_args\<lparr>arg_tau := None, arg_tau' := None, arg_std_u := Ndarray (Fin 2)\<rparr>"
  have st1: "set_tau ?a
               = Inr ([Fin (- ln (3 / 4))], [Fin (ln 2)], Some (Fin (ln 2)), Fin (1 / 2),
                      Fin (1 / 8), False)"
    by (simp add: set_tau_def scaled_std_args_def default_args_def mRNA_induction_ln2
        assign_tau_scaled_std)
  have st2: "adjust_tau ?a (Fin (1 / 2)) (Fin (1 / 8)) [Fin (- ln (3 / 4))] [Fin (ln 2)]
               = Inr ([Fin (- ln (3 / 4))], [Fin (ln 2)])"
    by (simp add: adjust_tau_def eval_scaled)
  have st3: "state_dists ?a (Fin (1 / 2)) (Fin (1 / 8)) [Fin (- ln (3 / 4))] [Fin (ln 2)]
               = ([[Fin (729 / 1024)], [Fin (961 / 1024)], [Fin (17 / 16)], [Fin (13 / 16)]],
                  Fin 1, Fin 1, [Fin (1 / 4)], [Fin (1 / 4)], [Fin (1 / 32)], [Fin (5 / 32)])"
    by (simp add: state_dists_def eval_scaled)
  have args: "arg_tau ?a = None" "arg_tau' ?a = None"
    by (simp_all add: scaled_std_args_def default_args_def)
  show ?thesis
    by (simp add: assign_timepoints_def compute_divergence_stages [OF st1 st2] st3 args
        by_mode_assign_timepoints argmin_axis0_def np_argmin_fin4 Let_def)
qed

lemma std_u_after_switch_point: "std_u_after switch_point_args = Number (Fin 1)"
  by (simp add: std_u_after_def switch_point_args_def default_args_def split: sum.splits)
text \<open>
  C8. A call of \<open>assign_timepoints\<close> that does not get all of \<open>tau\<close>, \<open>tau_\<close> and
  \<open>t_\<close>, and whose \<open>std_u\<close> is a number or is divided by a \<open>scaling\<close> of 1,
  changes none of its arguments: the caller's \<open>tau\<close>, \<open>tau_\<close> and \<open>std_u\<close> are
  after the call what they were before it, and a second call with the same keyword
  arguments returns what the first returned. Without \<open>t_\<close> that is an exception; with
  \<open>t_\<close>, outside the projection mode, for \<open>u\<close> and \<open>s\<close> of one length with at
  least one positive \<open>s\<close>, it is a result (t, tau, branch).
\<close>

theorem assign_timepoints_repeatable:
  assumes fresh: "arg_tau kwargs = None \<or> arg_tau' kwargs = None \<or> arg_t' kwargs = None"
    and std: "(\<exists>x. arg_std_u kwargs = Number x) \<or> arg_scaling kwargs = Fin 1"
  shows "snd (assign_timepoints kwargs) = (arg_tau kwargs, arg_tau' kwargs)
       \<and> std_u_after kwargs = arg_std_u kwargs
       \<and> assign_timepoints_twice kwargs
           = (fst (assign_timepoints kwargs), fst (assign_timepoints kwargs))
       \<and> (arg_t' kwargs = None \<longrightarrow> (\<exists>e. fst (assign_timepoints kwargs) = Inl e))
       \<and> (arg_t' kwargs \<noteq> None \<and> arg_assignment_mode kwargs \<noteq> Some ''projection''
            \<and> length (arg_u kwargs) = length (arg_s kwargs)
            \<and> (\<exists>x\<in>set (arg_s kwargs). gt x (Fin 0)) \<longrightarrow>
          (\<exists>t tau br. fst (assign_timepoints kwargs) = Inr (Timepoints t tau br)))"
proof -
  have 1: "snd (assign_timepoints kwargs) = (arg_tau kwargs, arg_tau' kwargs)"
    using compute_divergence_fresh [OF fresh] by (simp add: assign_timepoints_def)
  have 2: "std_u_after kwargs = arg_std_u kwargs"
    using std_u_after_unchanged [OF std] .
  from 1 2 have "kwargs\<lparr>arg_tau := fst (snd (assign_timepoints kwargs)),
                    arg_tau' := snd (snd (assign_timepoints kwargs)),
                    arg_std_u := std_u_after kwargs\<rparr> = kwargs"
    by simp
  then have 3: "assign_timepoints_twice kwargs
           = (fst (assign_timepoints kwargs), fst (assign_timepoints kwargs))"
    by (simp add: assign_timepoints_twice_def split_beta Let_def)
  have 4: "arg_t' kwargs = None \<longrightarrow> (\<exists>e. fst (assign_timepoints kwargs) = Inl e)"
    using assign_timepoints_no_switch_time [of kwargs] by blast
  have 5: "\<exists>t tau br. fst (assign_timepoints kwargs) = Inr (Timepoints t tau br)"
    if "arg_t' kwargs \<noteq> None" "arg_assignment_mode kwargs \<noteq> Some ''projection''"
      "length (arg_u kwargs) = length (arg_s kwargs)" "\<exists>x\<in>set (arg_s kwargs). gt x (Fin 0)"
  proof -
    from that(1) obtain t_sw where t: "arg_t' kwargs = Some t_sw" by auto
    with fresh have "arg_tau kwargs = None \<or> arg_tau' kwargs = None" by simp
    from assign_timepoints_total [OF t this that(2,3,4)] show ?thesis .
  qed
  from 1 2 3 4 5 show ?thesis by blast
qed

theorem assign_timepoints_repeatable_witness:
  "arg_tau curve_cells_args = None
   \<and> arg_std_u curve_cells_args = Number (Fin 1)
   \<and> snd (assign_timepoints curve_cells_args) = (None, None)
   \<and> std_u_after curve_cells_args = Number (Fin 1)
   \<and> assign_timepoints_twice curve_cells_args
       = (Inr (Timepoints [Fin (- ln (3 / 4)), Fin (2 * ln 2)] [Fin (- ln (3 / 4)), Fin 0] [1, 0]),
          Inr (Timepoints [Fin (- ln (3 / 4)), Fin (2 * ln 2)] [Fin (- ln (3 / 4)), Fin 0] [1, 0]))"
proof -
  have h: "arg_tau curve_cells_args = None" "arg_std_u curve_cells_args = Number (Fin 1)"
    by (simp_all add: curve_cells_args_def default_args_def)
  from assign_timepoints_repeatable [of curve_cells_args] h
  have "std_u_after curve_cells_args = arg_std_u curve_cells_args"
    and "assign_timepoints_twice curve_cells_args
           = (fst (assign_timepoints curve_cells_args), fst (assign_timepoints curve_cells_args))"
    by blast+
  with h show ?thesis by (simp add: assign_timepoints_curve_cells)
qed

text \<open>
  One cell at the switching point, \<open>t_ = ln 2\<close>, with \<open>tau = tau_ = [ln 2]\<close>
  passed by the caller. The first call matches the cell to the induction curve and
  overwrites the caller's \<open>tau_\<close> with 0; the second call, on the same arrays, finds
  the repression curve at distance 0 as well and returns the repression branch with
  \<open>tau = 0\<close>.

  And one cell at (1/4, 1), with neither \<open>tau\<close> nor \<open>tau_\<close> passed, \<open>std_u\<close> an
  array holding 4 and \<open>scaling = 2\<close>. The first call divides the caller's \<open>std_u\<close>
  to 2 and computes with 2: the cell is nearest to the steady state 3 and gets the time
  \<open>t_ = ln 2\<close>. The second call divides it to 1 and computes with 1: the cell is
  nearest to the repression curve and gets the time \<open>2 * ln 2\<close>.
\<close>

theorem assign_timepoints_twice_counterexample:
  "assign_timepoints_twice switch_point_args
     = (Inr (Timepoints [Fin (ln 2)] [Fin (ln 2)] [1]),
        Inr (Timepoints [Fin (ln 2)] [Fin 0] [0]))
   \<and> arg_tau scaled_std_args = None \<and> arg_tau' scaled_std_args = None
   \<and> arg_std_u scaled_std_args = Ndarray (Fin 4)
   \<and> std_u_after scaled_std_args = Ndarray (Fin 2)
   \<and> assign_timepoints_twice scaled_std_args
       = (Inr (Timepoints [Fin (ln 2)] [Fin 0] [0]),
          Inr (Timepoints [Fin (2 * ln 2)] [Fin 0] [0]))"
  by (simp add: assign_timepoints_twice_def first_call second_call std_u_after_switch_point
      first_call_scaled_std second_call_scaled_std std_u_after_scaled_std)
     (simp add: scaled_std_args_def default_args_def)


end
